theory Spec2Isabelle
  imports Main "HOL-Library.AList"
begin

section \<open>Values arriving from JSON request bodies\<close>

text \<open>
  The service is TypeScript, but the user identifier reaches it from parsed JSON
  (\<^verbatim>\<open>req.body\<close>), so at run time it can be any JavaScript value.  Only the
  distinctions the code makes are kept: truthiness, \<^verbatim>\<open>typeof\<close>,
  \<^verbatim>\<open>Array.isArray\<close>.
\<close>

text \<open>A JavaScript string is a sequence of UTF-16 code units, here numbers.  It is used for
  the strings whose content the code inspects (user identifiers, which are trimmed); strings
  that are only compared and tested for emptiness (tokens, device identifiers, categories,
  texts) are HOL strings.\<close>

type_synonym jsString = "nat list"

datatype jsval =
  JUndefined | JNull | JBool bool | JNum int | JStr jsString | JArr "jsval list" | JObj

fun truthy :: "jsval \<Rightarrow> bool" where
  "truthy JUndefined = False"
| "truthy JNull = False"
| "truthy (JBool b) = b"
| "truthy (JNum n) = (n \<noteq> 0)"
| "truthy (JStr s) = (s \<noteq> [])"
| "truthy (JArr xs) = True"
| "truthy JObj = True"

fun typeof :: "jsval \<Rightarrow> string" where
  "typeof JUndefined = ''undefined''"
| "typeof JNull = ''object''"
| "typeof (JBool b) = ''boolean''"
| "typeof (JNum n) = ''number''"
| "typeof (JStr s) = ''string''"
| "typeof (JArr xs) = ''object''"
| "typeof JObj = ''object''"

text \<open>
  \<^verbatim>\<open>String.prototype.trim\<close> removes, at both ends, the white space and the line
  terminators of ECMAScript: tab, line feed, vertical tab, form feed, carriage return, space,
  no-break space (U+00A0), the space separators U+1680, U+2000 to U+200A, U+202F, U+205F and
  U+3000, the line and paragraph separators U+2028 and U+2029, and the byte order mark U+FEFF.
\<close>

definition isSpace :: "nat \<Rightarrow> bool" where
  "isSpace c =
     (c \<in> set [0x09, 0x0A, 0x0B, 0x0C, 0x0D, 0x20, 0xA0, 0x1680,
                0x2000, 0x2001, 0x2002, 0x2003, 0x2004, 0x2005, 0x2006, 0x2007, 0x2008,
                0x2009, 0x200A, 0x2028, 0x2029, 0x202F, 0x205F, 0x3000, 0xFEFF])"

definition trim :: "jsString \<Rightarrow> jsString" where
  "trim s = rev (dropWhile isSpace (rev (dropWhile isSpace s)))"

text \<open>\<^verbatim>\<open>!userId || typeof userId !== 'string' || userId.trim() === ''\<close>\<close>

definition invalidUserId :: "jsval \<Rightarrow> bool" where
  "invalidUserId v =
     (\<not> truthy v \<or> typeof v \<noteq> ''string'' \<or> (case v of JStr s \<Rightarrow> trim s = [] | _ \<Rightarrow> False))"

section \<open>Notification preferences\<close>

record chan3 =
  email :: bool
  push :: bool
  sms :: bool

record chan1 =
  pushOnly :: bool

record prefDoc =
  transactional :: chan3
  taskUpdates :: chan3
  taskReminders :: chan3
  keywordTaskAlerts :: chan1
  recommendedTaskAlerts :: chan1
  helpfulInformation :: chan3
  updatesNewsletters :: chan3

datatype channel = Push | Email | Sms

text \<open>
  The value of \<^verbatim>\<open>preferences[category]\<close>, as far as the code tells values apart: a
  falsy value (\<^verbatim>\<open>undefined\<close>, \<^verbatim>\<open>false\<close>, \<^verbatim>\<open>0\<close>, ...), the three flags or the
  one flag of a category, another object (one without the keys \<^verbatim>\<open>push\<close>, \<^verbatim>\<open>email\<close>
  and \<^verbatim>\<open>sms\<close>: a date, an identifier, a method), or a truthy primitive value, on which
  the \<^verbatim>\<open>in\<close> operator throws.
\<close>

datatype propVal = Falsy | Three chan3 | One chan1 | OtherObject | TruthyPrimitive

definition allOn :: chan3 where
  "allOn = \<lparr>email = True, push = True, sms = True\<rparr>"

text \<open>The literal passed to \<^verbatim>\<open>create\<close> by \<^verbatim>\<open>createDefault\<close>, and returned by
  \<^verbatim>\<open>getPreferences\<close> for an invalid user.\<close>

definition defaultPrefs :: prefDoc where
  "defaultPrefs =
     \<lparr>transactional = \<lparr>email = False, push = True, sms = True\<rparr>,
      taskUpdates = allOn,
      taskReminders = allOn,
      keywordTaskAlerts = \<lparr>pushOnly = True\<rparr>,
      recommendedTaskAlerts = \<lparr>pushOnly = True\<rparr>,
      helpfulInformation = allOn,
      updatesNewsletters = allOn\<rparr>"

text \<open>
  \<^verbatim>\<open>preferences[category]\<close>: the category is a string key looked up on the document.
  Under the seven category names the document holds the stored flags.  Under any other key it
  holds what the document class of the object mapper puts there (\<^verbatim>\<open>createdAt\<close>,
  \<^verbatim>\<open>_id\<close>, \<^verbatim>\<open>constructor\<close>, \<^verbatim>\<open>userId\<close>, ...) or nothing; that table is not part of
  this code base and is the parameter \<open>other\<close>.
\<close>

definition categoryPrefsOf :: "(string \<Rightarrow> propVal) \<Rightarrow> prefDoc \<Rightarrow> string \<Rightarrow> propVal" where
  "categoryPrefsOf other p c =
     (if c = ''transactional'' then Three (transactional p)
      else if c = ''taskUpdates'' then Three (taskUpdates p)
      else if c = ''taskReminders'' then Three (taskReminders p)
      else if c = ''keywordTaskAlerts'' then One (keywordTaskAlerts p)
      else if c = ''recommendedTaskAlerts'' then One (recommendedTaskAlerts p)
      else if c = ''helpfulInformation'' then Three (helpfulInformation p)
      else if c = ''updatesNewsletters'' then Three (updatesNewsletters p)
      else other c)"

text \<open>\<^verbatim>\<open>(categoryPrefs as { push: boolean }).push\<close>; on a value without that key it is
  \<^verbatim>\<open>undefined\<close>.\<close>

fun pushOf :: "propVal \<Rightarrow> bool" where
  "pushOf (Three c) = push c"
| "pushOf (One c) = pushOnly c"
| "pushOf v = False"

fun channelFlag :: "chan3 \<Rightarrow> channel \<Rightarrow> bool" where
  "channelFlag c Push = push c"
| "channelFlag c Email = email c"
| "channelFlag c Sms = sms c"

section \<open>Device tokens\<close>

datatype platform = Ios | Android | Web

record tokenDoc =
  docId :: nat
  userId :: jsString
  token :: string
  platform :: platform
  deviceId :: "string option"
  lastActive :: int

section \<open>The world: stores, the log of external calls, and the environment\<close>

text \<open>Every call that leaves the process is recorded, so that "without reading" and
  "without invoking" are statements about the log.\<close>

datatype call =
    PrefFindOne jsString
  | PrefCreate jsString
  | PrefSave jsString
  | TokFind jsval
  | TokFindOne string
  | TokInsert string
  | TokSave string
  | TokDeleteDevice jsString string
  | TokUpdateMany "string list"
  | TokDeleteMany "string list"
  | Multicast "string list"

record world =
  prefs :: "jsString \<rightharpoonup> prefDoc"
  tokens :: "tokenDoc list"
  log :: "call list"

record message =
  mTitle :: string
  mBody :: string
  mData :: "(string \<times> string) list"

record sendResponse =
  success :: bool
  errorCode :: "string option"

record batchResponse =
  responses :: "sendResponse list"
  successCount :: nat
  failureCount :: nat

text \<open>
  What the code cannot decide is a parameter.  Time is the number of external calls made so far.
  \<^item> \<open>raises t c\<close>: call \<open>c\<close>, issued at time \<open>t\<close>, throws (a store or transport failure);
  \<^item> \<open>raceInsert t\<close>: a concurrent request has created the default record of the same user
    just before the insert issued at time \<open>t\<close>, which then fails with code 11000;
  \<^item> \<open>multicast t toks m\<close>: the answer of the push gateway to message \<open>m\<close> for tokens \<open>toks\<close>;
  \<^item> \<open>clock t\<close>: \<^verbatim>\<open>new Date()\<close>;
  \<^item> \<open>docProperty u k\<close>: what the preference document of user \<open>u\<close> holds under a key \<open>k\<close>
    that is none of the seven categories.
\<close>

record env =
  raises :: "nat \<Rightarrow> call \<Rightarrow> bool"
  raceInsert :: "nat \<Rightarrow> bool"
  multicast :: "nat \<Rightarrow> string list \<Rightarrow> message \<Rightarrow> batchResponse"
  clock :: "nat \<Rightarrow> int"
  docProperty :: "jsString \<Rightarrow> string \<Rightarrow> propVal"

datatype error =
    StoreError
  | DuplicateKey
  | TransportError
  | TypeError
  | ValidationError
  | BadRequestError
  | Failed string

definition issue :: "env \<Rightarrow> world \<Rightarrow> call \<Rightarrow> bool \<times> world" where
  "issue e w c = (raises e (length (log w)) c, w\<lparr>log := log w @ [c]\<rparr>)"

section \<open>Preference store operations\<close>

definition findOnePrefs :: "env \<Rightarrow> world \<Rightarrow> jsString \<Rightarrow> (error + prefDoc option) \<times> world" where
  "findOnePrefs e w u =
     (case issue e w (PrefFindOne u) of
        (thrown, w') \<Rightarrow> if thrown then (Inl StoreError, w') else (Inr (prefs w' u), w'))"

text \<open>\<^verbatim>\<open>createDefault\<close>: \<^verbatim>\<open>this.create({userId, ...defaults})\<close> under the unique index on
  \<^verbatim>\<open>userId\<close>.\<close>

definition createDefault :: "env \<Rightarrow> world \<Rightarrow> jsString \<Rightarrow> (error + prefDoc) \<times> world" where
  "createDefault e w u =
     (case issue e w (PrefCreate u) of
        (thrown, w') \<Rightarrow>
          if thrown then (Inl StoreError, w')
          else if raceInsert e (length (log w))
          then (Inl DuplicateKey, w'\<lparr>prefs := (prefs w')(u \<mapsto> defaultPrefs)\<rparr>)
          else (case prefs w' u of
                  Some d \<Rightarrow> (Inl DuplicateKey, w')
                | None \<Rightarrow> (Inr defaultPrefs, w'\<lparr>prefs := (prefs w')(u \<mapsto> defaultPrefs)\<rparr>)))"

text \<open>
  The block shared by \<^verbatim>\<open>shouldSendNotification\<close>, \<^verbatim>\<open>getPreferences\<close> and
  \<^verbatim>\<open>updatePreferences\<close>: find the record; if there is none create the default one; if the
  creation fails with a duplicate key, read again; any other error is thrown on.
\<close>

definition findOrCreate :: "env \<Rightarrow> world \<Rightarrow> jsString \<Rightarrow> (error + prefDoc option) \<times> world" where
  "findOrCreate e w u =
     (case findOnePrefs e w u of
        (Inl err, w1) \<Rightarrow> (Inl err, w1)
      | (Inr (Some p), w1) \<Rightarrow> (Inr (Some p), w1)
      | (Inr None, w1) \<Rightarrow>
          (case createDefault e w1 u of
             (Inr p, w2) \<Rightarrow> (Inr (Some p), w2)
           | (Inl DuplicateKey, w2) \<Rightarrow> findOnePrefs e w2 u
           | (Inl err, w2) \<Rightarrow> (Inl err, w2)))"

section \<open>\<^verbatim>\<open>shouldSendNotification\<close>\<close>

text \<open>The decision once a record is at hand (source lines after the second
  \<^verbatim>\<open>if (!preferences)\<close>).  The test \<^verbatim>\<open>'push' in categoryPrefs\<close> is false on an object
  without that key and throws on a primitive value.\<close>

definition decide :: "(string \<Rightarrow> propVal) \<Rightarrow> prefDoc \<Rightarrow> string \<Rightarrow> channel \<Rightarrow> error + bool" where
  "decide other p category ch =
     (case categoryPrefsOf other p category of
        Falsy \<Rightarrow> Inr True
      | cp \<Rightarrow>
          if category = ''keywordTaskAlerts'' \<or> category = ''recommendedTaskAlerts''
          then Inr (ch = Push \<and> pushOf cp = True)
          else (case cp of
                  Three c \<Rightarrow> Inr (channelFlag c ch = True)
                | TruthyPrimitive \<Rightarrow> Inl TypeError
                | _ \<Rightarrow> Inr False))"

text \<open>The whole body is inside \<^verbatim>\<open>try\<close>; the \<^verbatim>\<open>catch\<close> returns \<^verbatim>\<open>true\<close>,
  so the function never throws.  A value that is not a string is invalid, so the last branch of
  the case distinction is never taken; the same holds in \<open>getPreferences\<close> and
  \<open>updatePreferences\<close> below.\<close>

definition shouldSendNotification ::
    "env \<Rightarrow> world \<Rightarrow> jsval \<Rightarrow> string \<Rightarrow> channel \<Rightarrow> bool \<times> world" where
  "shouldSendNotification e w uid category ch =
     (if invalidUserId uid then (False, w)
      else case uid of
        JStr u \<Rightarrow>
          (case findOrCreate e w u of
             (Inl err, w') \<Rightarrow> (True, w')
           | (Inr None, w') \<Rightarrow> (True, w')
           | (Inr (Some p), w') \<Rightarrow>
               (case decide (docProperty e u) p category ch of
                  Inl err \<Rightarrow> (True, w')
                | Inr b \<Rightarrow> (b, w')))
      | _ \<Rightarrow> (False, w))"

section \<open>\<^verbatim>\<open>getPreferences\<close>\<close>

text \<open>\<^verbatim>\<open>preferences?.x || default\<close> for each of the seven categories.\<close>

definition orDefaults :: "prefDoc option \<Rightarrow> prefDoc" where
  "orDefaults po = (case po of None \<Rightarrow> defaultPrefs | Some p \<Rightarrow> p)"

definition getPreferences :: "env \<Rightarrow> world \<Rightarrow> jsval \<Rightarrow> (error + prefDoc) \<times> world" where
  "getPreferences e w uid =
     (if invalidUserId uid then (Inr defaultPrefs, w)
      else case uid of
        JStr u \<Rightarrow>
          (case findOrCreate e w u of
             (Inl err, w') \<Rightarrow> (Inl (Failed ''Failed to fetch preferences''), w')
           | (Inr po, w') \<Rightarrow> (Inr (orDefaults po), w'))
      | _ \<Rightarrow> (Inr defaultPrefs, w))"

section \<open>\<^verbatim>\<open>updatePreferences\<close>\<close>

text \<open>The request body: every category may be absent, and a category that is present may
  carry any subset of its flags.\<close>

record chan3Patch =
  emailP :: "bool option"
  pushP :: "bool option"
  smsP :: "bool option"

record chan1Patch =
  pushOnlyP :: "bool option"

record prefsPatch =
  transactionalP :: "chan3Patch option"
  taskUpdatesP :: "chan3Patch option"
  taskRemindersP :: "chan3Patch option"
  keywordTaskAlertsP :: "chan1Patch option"
  recommendedTaskAlertsP :: "chan1Patch option"
  helpfulInformationP :: "chan3Patch option"
  updatesNewslettersP :: "chan3Patch option"

text \<open>\<^verbatim>\<open>{...stored, ...supplied}\<close>\<close>

definition merge3 :: "chan3 \<Rightarrow> chan3Patch \<Rightarrow> chan3" where
  "merge3 c q =
     \<lparr>email = (case emailP q of Some b \<Rightarrow> b | None \<Rightarrow> email c),
      push = (case pushP q of Some b \<Rightarrow> b | None \<Rightarrow> push c),
      sms = (case smsP q of Some b \<Rightarrow> b | None \<Rightarrow> sms c)\<rparr>"

definition merge1 :: "chan1 \<Rightarrow> chan1Patch \<Rightarrow> chan1" where
  "merge1 c q = \<lparr>pushOnly = (case pushOnlyP q of Some b \<Rightarrow> b | None \<Rightarrow> pushOnly c)\<rparr>"

text \<open>The seven \<^verbatim>\<open>if (preferences.x) { ... }\<close> blocks, in the source's order, on a
  record that exists.\<close>

definition patchDoc :: "prefDoc \<Rightarrow> prefsPatch \<Rightarrow> prefDoc" where
  "patchDoc d q =
     (let d1 = (case transactionalP q of
                  Some t \<Rightarrow> d\<lparr>transactional := (merge3 (transactional d) t)\<lparr>push := True\<rparr>\<rparr>
                | None \<Rightarrow> d);
          d2 = (case taskUpdatesP q of
                  Some t \<Rightarrow> d1\<lparr>taskUpdates := merge3 (taskUpdates d1) t\<rparr> | None \<Rightarrow> d1);
          d3 = (case taskRemindersP q of
                  Some t \<Rightarrow> d2\<lparr>taskReminders := merge3 (taskReminders d2) t\<rparr> | None \<Rightarrow> d2);
          d4 = (case keywordTaskAlertsP q of
                  Some t \<Rightarrow> d3\<lparr>keywordTaskAlerts := merge1 (keywordTaskAlerts d3) t\<rparr> | None \<Rightarrow> d3);
          d5 = (case recommendedTaskAlertsP q of
                  Some t \<Rightarrow> d4\<lparr>recommendedTaskAlerts := merge1 (recommendedTaskAlerts d4) t\<rparr>
                | None \<Rightarrow> d4);
          d6 = (case helpfulInformationP q of
                  Some t \<Rightarrow> d5\<lparr>helpfulInformation := merge3 (helpfulInformation d5) t\<rparr>
                | None \<Rightarrow> d5)
      in (case updatesNewslettersP q of
            Some t \<Rightarrow> d6\<lparr>updatesNewsletters := merge3 (updatesNewsletters d6) t\<rparr> | None \<Rightarrow> d6))"

text \<open>When no record could be obtained, \<^verbatim>\<open>userPreferences\<close> is \<^verbatim>\<open>null\<close>: the first
  block that runs dereferences it and throws a \<^verbatim>\<open>TypeError\<close>.\<close>

definition applyPatch :: "prefDoc option \<Rightarrow> prefsPatch \<Rightarrow> error + prefDoc option" where
  "applyPatch po q =
     (case po of
        Some d \<Rightarrow> Inr (Some (patchDoc d q))
      | None \<Rightarrow>
          if transactionalP q \<noteq> None \<or> taskUpdatesP q \<noteq> None \<or> taskRemindersP q \<noteq> None
             \<or> keywordTaskAlertsP q \<noteq> None \<or> recommendedTaskAlertsP q \<noteq> None
             \<or> helpfulInformationP q \<noteq> None \<or> updatesNewslettersP q \<noteq> None
          then Inl TypeError else Inr None)"

text \<open>\<^verbatim>\<open>await userPreferences?.save()\<close>\<close>

definition savePrefs :: "env \<Rightarrow> world \<Rightarrow> jsString \<Rightarrow> prefDoc option \<Rightarrow> (error + unit) \<times> world" where
  "savePrefs e w u po =
     (case po of
        None \<Rightarrow> (Inr (), w)
      | Some d \<Rightarrow>
          (case issue e w (PrefSave u) of
             (thrown, w') \<Rightarrow>
               if thrown then (Inl StoreError, w')
               else (Inr (), w'\<lparr>prefs := (prefs w')(u \<mapsto> d)\<rparr>)))"

definition updatePreferences ::
    "env \<Rightarrow> world \<Rightarrow> jsval \<Rightarrow> prefsPatch \<Rightarrow> (error + prefDoc) \<times> world" where
  "updatePreferences e w uid q =
     (if invalidUserId uid then (Inl (Failed ''Failed to update preferences''), w)
      else case uid of
        JStr u \<Rightarrow>
          (case findOrCreate e w u of
             (Inl err, w1) \<Rightarrow> (Inl (Failed ''Failed to update preferences''), w1)
           | (Inr po, w1) \<Rightarrow>
               (case applyPatch po q of
                  Inl err \<Rightarrow> (Inl (Failed ''Failed to update preferences''), w1)
                | Inr po' \<Rightarrow>
                    (case savePrefs e w1 u po' of
                       (Inl err, w2) \<Rightarrow> (Inl (Failed ''Failed to update preferences''), w2)
                     | (Inr x, w2) \<Rightarrow> (Inr (orDefaults po'), w2))))
      | _ \<Rightarrow> (Inl (Failed ''Failed to update preferences''), w))"

section \<open>Sending a push notification to one user\<close>

record payload =
  nType :: string
  nTitle :: string
  nBody :: string
  nData :: "(string \<times> string) list option"
  nCategory :: "string option"

record sendResult =
  success' :: bool
  sent :: nat
  failed :: nat

text \<open>\<^verbatim>\<open>FCMToken.find({ userId }).sort({ lastActive: -1 })\<close>; a failure is rethrown as
  \<^verbatim>\<open>Error('Failed to fetch FCM tokens')\<close>.  The function is only called with an identifier
  that passed the preference check, which is a string.\<close>

definition getUserFCMTokens :: "env \<Rightarrow> world \<Rightarrow> jsval \<Rightarrow> (error + tokenDoc list) \<times> world" where
  "getUserFCMTokens e w uid =
     (case issue e w (TokFind uid) of
        (thrown, w') \<Rightarrow>
          if thrown then (Inl (Failed ''Failed to fetch FCM tokens''), w')
          else (Inr (sort_key (\<lambda>d. - lastActive d) (filter (\<lambda>d. uid = JStr (userId d)) (tokens w'))),
                w'))"

text \<open>\<^verbatim>\<open>data: { type: notification.type, ...(notification.data || {}) }\<close>; the
  \<^verbatim>\<open>android\<close> and \<^verbatim>\<open>apns\<close> parts are constants and left out.\<close>

definition buildMessage :: "payload \<Rightarrow> message" where
  "buildMessage n =
     \<lparr>mTitle = nTitle n, mBody = nBody n,
      mData = fold (\<lambda>(k, v). AList.update k v) (case nData n of None \<Rightarrow> [] | Some d \<Rightarrow> d)
                [(''type'', nType n)]\<rparr>"

definition sendEachForMulticast ::
    "env \<Rightarrow> world \<Rightarrow> string list \<Rightarrow> message \<Rightarrow> (error + batchResponse) \<times> world" where
  "sendEachForMulticast e w toks m =
     (case issue e w (Multicast toks) of
        (thrown, w') \<Rightarrow>
          if thrown then (Inl TransportError, w')
          else (Inr (multicast e (length (log w)) toks m), w'))"

text \<open>\<^verbatim>\<open>responses.map((resp, idx) => P(resp) ? tokens[idx].token : null)\<close>; reading
  \<^verbatim>\<open>.token\<close> of a missing element throws.\<close>

fun mapTokens ::
    "(sendResponse \<Rightarrow> bool) \<Rightarrow> tokenDoc list \<Rightarrow> nat \<Rightarrow> sendResponse list \<Rightarrow> error + string option list"
where
  "mapTokens P toks idx [] = Inr []"
| "mapTokens P toks idx (r # rs) =
     (if P r then
        (if idx < length toks then
           (case mapTokens P toks (Suc idx) rs of
              Inl err \<Rightarrow> Inl err
            | Inr ts \<Rightarrow> Inr (Some (token (toks ! idx)) # ts))
         else Inl TypeError)
      else (case mapTokens P toks (Suc idx) rs of
              Inl err \<Rightarrow> Inl err
            | Inr ts \<Rightarrow> Inr (None # ts)))"

text \<open>\<^verbatim>\<open>.filter(Boolean)\<close>: \<^verbatim>\<open>null\<close> and the empty string are dropped.\<close>

fun filterBoolean :: "string option list \<Rightarrow> string list" where
  "filterBoolean [] = []"
| "filterBoolean (None # xs) = filterBoolean xs"
| "filterBoolean (Some t # xs) = (if t = [] then filterBoolean xs else t # filterBoolean xs)"

definition isInvalidToken :: "sendResponse \<Rightarrow> bool" where
  "isInvalidToken r =
     (\<not> success r \<and>
      (errorCode r = Some ''messaging/invalid-registration-token'' \<or>
       errorCode r = Some ''messaging/registration-token-not-registered''))"

text \<open>\<^verbatim>\<open>FCMToken.updateMany({ token: { $in: ts } }, { lastActive: new Date() })\<close>\<close>

definition updateManyLastActive :: "env \<Rightarrow> world \<Rightarrow> string list \<Rightarrow> (error + unit) \<times> world" where
  "updateManyLastActive e w ts =
     (let now = clock e (length (log w)) in
      case issue e w (TokUpdateMany ts) of
        (thrown, w') \<Rightarrow>
          if thrown then (Inl StoreError, w')
          else (Inr (),
                w'\<lparr>tokens := map (\<lambda>d. if token d \<in> set ts then d\<lparr>lastActive := now\<rparr> else d)
                                 (tokens w')\<rparr>))"

text \<open>\<^verbatim>\<open>FCMToken.deleteMany({ token: { $in: ts } })\<close>\<close>

definition deleteManyTokens :: "env \<Rightarrow> world \<Rightarrow> string list \<Rightarrow> (error + unit) \<times> world" where
  "deleteManyTokens e w ts =
     (case issue e w (TokDeleteMany ts) of
        (thrown, w') \<Rightarrow>
          if thrown then (Inl StoreError, w')
          else (Inr (), w'\<lparr>tokens := filter (\<lambda>d. token d \<notin> set ts) (tokens w')\<rparr>))"

text \<open>The part of \<^verbatim>\<open>sendPushNotification\<close> after the transport has answered.  Every
  statement is inside the one \<^verbatim>\<open>try\<close> of the function, whose \<^verbatim>\<open>catch\<close> rethrows
  \<^verbatim>\<open>Error('Failed to send push notification: ...')\<close>.\<close>

definition afterMulticast ::
    "env \<Rightarrow> world \<Rightarrow> tokenDoc list \<Rightarrow> batchResponse \<Rightarrow> (error + sendResult) \<times> world" where
  "afterMulticast e w toks response =
     (case mapTokens success toks 0 (responses response) of
        Inl err \<Rightarrow> (Inl (Failed ''Failed to send push notification''), w)
      | Inr ms \<Rightarrow>
          (let successfulTokens = filterBoolean ms in
           case (if length successfulTokens > 0 then updateManyLastActive e w successfulTokens
                 else (Inr (), w)) of
             (Inl err, w1) \<Rightarrow> (Inl (Failed ''Failed to send push notification''), w1)
           | (Inr x, w1) \<Rightarrow>
               (case mapTokens isInvalidToken toks 0 (responses response) of
                  Inl err \<Rightarrow> (Inl (Failed ''Failed to send push notification''), w1)
                | Inr ns \<Rightarrow>
                    (let invalidTokens = filterBoolean ns in
                     case (if length invalidTokens > 0 then deleteManyTokens e w1 invalidTokens
                           else (Inr (), w1)) of
                       (Inl err, w2) \<Rightarrow> (Inl (Failed ''Failed to send push notification''), w2)
                     | (Inr y, w2) \<Rightarrow>
                         (Inr \<lparr>success' = successCount response > 0,
                               sent = successCount response,
                               failed = failureCount response\<rparr>, w2)))))"

text \<open>\<^verbatim>\<open>notification.category || 'taskUpdates'\<close>\<close>

definition categoryOrDefault :: "payload \<Rightarrow> string" where
  "categoryOrDefault n =
     (case nCategory n of None \<Rightarrow> ''taskUpdates'' | Some c \<Rightarrow> if c = [] then ''taskUpdates'' else c)"

definition sendPushNotification ::
    "env \<Rightarrow> world \<Rightarrow> jsval \<Rightarrow> payload \<Rightarrow> (error + sendResult) \<times> world" where
  "sendPushNotification e w uid n =
     (case shouldSendNotification e w uid (categoryOrDefault n) Push of
        (shouldSend, w1) \<Rightarrow>
          if \<not> shouldSend then (Inr \<lparr>success' = True, sent = 0, failed = 0\<rparr>, w1)
          else
            (case getUserFCMTokens e w1 uid of
               (Inl err, w2) \<Rightarrow> (Inl (Failed ''Failed to send push notification''), w2)
             | (Inr toks, w2) \<Rightarrow>
                 if length toks = 0 then (Inr \<lparr>success' = True, sent = 0, failed = 0\<rparr>, w2)
                 else
                   (case sendEachForMulticast e w2 (map token toks) (buildMessage n) of
                      (Inl err, w3) \<Rightarrow> (Inl (Failed ''Failed to send push notification''), w3)
                    | (Inr response, w3) \<Rightarrow> afterMulticast e w3 toks response)))"

section \<open>\<^verbatim>\<open>sendToMultipleUsers\<close>\<close>

record batchResult =
  total' :: nat
  totalSent :: nat
  totalFailed :: nat

text \<open>The \<^verbatim>\<open>for\<close> loop, with its two counters.\<close>

fun sendEach ::
    "env \<Rightarrow> world \<Rightarrow> payload \<Rightarrow> jsval list \<Rightarrow> nat \<times> nat \<Rightarrow> (nat \<times> nat) \<times> world" where
  "sendEach e w n [] (s, f) = ((s, f), w)"
| "sendEach e w n (uid # uids) (s, f) =
     (case sendPushNotification e w uid n of
        (Inr result, w') \<Rightarrow> sendEach e w' n uids (s + sent result, f + failed result)
      | (Inl err, w') \<Rightarrow> sendEach e w' n uids (s, f + 1))"

definition sendToMultipleUsers ::
    "env \<Rightarrow> world \<Rightarrow> jsval list \<Rightarrow> payload \<Rightarrow> batchResult \<times> world" where
  "sendToMultipleUsers e w userIds n =
     (case sendEach e w n userIds (0, 0) of
        ((s, f), w') \<Rightarrow> (\<lparr>total' = length userIds, totalSent = s, totalFailed = f\<rparr>, w'))"

text \<open>The outcome of each user's send in turn, every send starting from the world its
  predecessor left.  This is the yardstick for the loop, not part of the source.\<close>

fun perUserOutcomes ::
    "env \<Rightarrow> world \<Rightarrow> payload \<Rightarrow> jsval list \<Rightarrow> (error + sendResult) list" where
  "perUserOutcomes e w n [] = []"
| "perUserOutcomes e w n (uid # uids) =
     (case sendPushNotification e w uid n of
        (r, w') \<Rightarrow> r # perUserOutcomes e w' n uids)"

fun sentOf :: "error + sendResult \<Rightarrow> nat" where
  "sentOf (Inr r) = sent r"
| "sentOf (Inl err) = 0"

fun failedOf :: "error + sendResult \<Rightarrow> nat" where
  "failedOf (Inr r) = failed r"
| "failedOf (Inl err) = 1"

text \<open>The world after each user's send in turn; like \<open>perUserOutcomes\<close>, a yardstick.\<close>

fun worldAfterEach :: "env \<Rightarrow> world \<Rightarrow> payload \<Rightarrow> jsval list \<Rightarrow> world" where
  "worldAfterEach e w n [] = w"
| "worldAfterEach e w n (uid # uids) =
     worldAfterEach e (snd (sendPushNotification e w uid n)) n uids"

section \<open>\<^verbatim>\<open>registerToken\<close> and the \<^verbatim>\<open>pre('save')\<close> hook of the token model\<close>

definition findOneToken :: "env \<Rightarrow> world \<Rightarrow> string \<Rightarrow> (error + tokenDoc option) \<times> world" where
  "findOneToken e w tok =
     (case issue e w (TokFindOne tok) of
        (thrown, w') \<Rightarrow>
          if thrown then (Inl StoreError, w')
          else (Inr (find (\<lambda>d. token d = tok) (tokens w')), w'))"

text \<open>A new document gets an \<^verbatim>\<open>_id\<close> that no stored document has.\<close>

definition freshId :: "tokenDoc list \<Rightarrow> nat" where
  "freshId ds = Suc (fold max (map docId ds) 0)"

text \<open>
  The hook: \<^verbatim>\<open>if (this.isNew && this.deviceId)\<close> delete every other document of the same
  user and device.  An empty \<^verbatim>\<open>deviceId\<close> is falsy.
\<close>

definition preSave :: "env \<Rightarrow> world \<Rightarrow> bool \<Rightarrow> tokenDoc \<Rightarrow> (error + unit) \<times> world" where
  "preSave e w isNew d =
     (case deviceId d of
        None \<Rightarrow> (Inr (), w)
      | Some dev \<Rightarrow>
          if isNew \<and> dev \<noteq> [] then
            (case issue e w (TokDeleteDevice (userId d) dev) of
               (thrown, w') \<Rightarrow>
                 if thrown then (Inl StoreError, w')
                 else (Inr (),
                       w'\<lparr>tokens := filter (\<lambda>x. \<not> (userId x = userId d \<and> deviceId x = Some dev
                                                    \<and> docId x \<noteq> docId d)) (tokens w')\<rparr>))
          else (Inr (), w))"

text \<open>The schema: \<^verbatim>\<open>userId\<close> and \<^verbatim>\<open>token\<close> are required strings, which rejects the
  empty string; validation runs before the hook.\<close>

definition validateToken :: "tokenDoc \<Rightarrow> bool" where
  "validateToken d = (userId d \<noteq> [] \<and> token d \<noteq> [])"

text \<open>\<^verbatim>\<open>fcmToken.save()\<close> on a document read from the store (\<^verbatim>\<open>isNew\<close> is false).\<close>

definition saveToken :: "env \<Rightarrow> world \<Rightarrow> tokenDoc \<Rightarrow> (error + tokenDoc) \<times> world" where
  "saveToken e w d =
     (if \<not> validateToken d then (Inl ValidationError, w)
      else case preSave e w False d of
        (Inl err, w1) \<Rightarrow> (Inl err, w1)
      | (Inr x, w1) \<Rightarrow>
          (case issue e w1 (TokSave (token d)) of
             (thrown, w2) \<Rightarrow>
               if thrown then (Inl StoreError, w2)
               else (Inr d, w2\<lparr>tokens := map (\<lambda>x. if docId x = docId d then d else x)
                                              (tokens w2)\<rparr>)))"

text \<open>\<^verbatim>\<open>FCMToken.create({...})\<close>: a new document is validated, passes the hook and is
  inserted under the unique index on \<^verbatim>\<open>token\<close>.\<close>

definition createToken ::
    "env \<Rightarrow> world \<Rightarrow> jsString \<Rightarrow> string \<Rightarrow> platform \<Rightarrow> string option \<Rightarrow> (error + tokenDoc) \<times> world"
where
  "createToken e w u tok p dev =
     (let d = \<lparr>docId = freshId (tokens w), userId = u, token = tok, platform = p,
               deviceId = dev, lastActive = clock e (length (log w))\<rparr> in
      if \<not> validateToken d then (Inl ValidationError, w)
      else case preSave e w True d of
        (Inl err, w1) \<Rightarrow> (Inl err, w1)
      | (Inr x, w1) \<Rightarrow>
          (case issue e w1 (TokInsert tok) of
             (thrown, w2) \<Rightarrow>
               if thrown then (Inl StoreError, w2)
               else if tok \<in> set (map token (tokens w2)) then (Inl DuplicateKey, w2)
               else (Inr d, w2\<lparr>tokens := tokens w2 @ [d]\<rparr>)))"

definition registerToken ::
    "env \<Rightarrow> world \<Rightarrow> jsString \<Rightarrow> string \<Rightarrow> platform \<Rightarrow> string option \<Rightarrow> (error + tokenDoc) \<times> world"
where
  "registerToken e w u tok p dev =
     (case findOneToken e w tok of
        (Inl err, w1) \<Rightarrow> (Inl (Failed ''Failed to register FCM token''), w1)
      | (Inr (Some d), w1) \<Rightarrow>
          (case saveToken e w1 (d\<lparr>userId := u, platform := p, deviceId := dev,
                                  lastActive := clock e (length (log w1))\<rparr>) of
             (Inl err, w2) \<Rightarrow> (Inl (Failed ''Failed to register FCM token''), w2)
           | (Inr d', w2) \<Rightarrow> (Inr d', w2))
      | (Inr None, w1) \<Rightarrow>
          (case createToken e w1 u tok p dev of
             (Inl err, w2) \<Rightarrow> (Inl (Failed ''Failed to register FCM token''), w2)
           | (Inr d', w2) \<Rightarrow> (Inr d', w2)))"

text \<open>The records of one user and device.\<close>

definition recordsFor :: "world \<Rightarrow> jsString \<Rightarrow> string \<Rightarrow> tokenDoc list" where
  "recordsFor w u dev = filter (\<lambda>d. userId d = u \<and> deviceId d = Some dev) (tokens w)"

section \<open>The single-send entry point of the controller\<close>

record sendBody =
  bUserId :: jsval
  bRecipients :: jsval
  bType :: "string option"
  bEventKey :: "string option"
  bTitle :: "string option"
  bBody :: "string option"
  bData :: "(string \<times> string) list option"
  bCategory :: "string option"

datatype response =
    ErrorResponse error
  | SendResponse bool nat nat

fun isArray :: "jsval \<Rightarrow> bool" where
  "isArray (JArr xs) = True"
| "isArray v = False"

fun elements :: "jsval \<Rightarrow> jsval list" where
  "elements (JArr xs) = xs"
| "elements v = []"

text \<open>\<^verbatim>\<open>recipients && Array.isArray(recipients) ? recipients : [userId]\<close>\<close>

definition targetUsers :: "sendBody \<Rightarrow> jsval list" where
  "targetUsers b =
     (if truthy (bRecipients b) \<and> isArray (bRecipients b) then elements (bRecipients b)
      else [bUserId b])"

text \<open>A string field is falsy when it is missing or empty.\<close>

definition present :: "string option \<Rightarrow> bool" where
  "present x = (case x of None \<Rightarrow> False | Some s \<Rightarrow> s \<noteq> [])"

text \<open>\<^verbatim>\<open>type || eventKey\<close>\<close>

definition notificationType :: "sendBody \<Rightarrow> string option" where
  "notificationType b = (if present (bType b) then bType b else bEventKey b)"

definition strOf :: "string option \<Rightarrow> string" where
  "strOf x = (case x of None \<Rightarrow> [] | Some s \<Rightarrow> s)"

text \<open>The controller's own loop over the targets.\<close>

fun dispatchEach ::
    "env \<Rightarrow> world \<Rightarrow> payload \<Rightarrow> jsval list \<Rightarrow> nat \<times> nat \<Rightarrow> (nat \<times> nat) \<times> world" where
  "dispatchEach e w n [] (s, f) = ((s, f), w)"
| "dispatchEach e w n (uid # uids) (s, f) =
     (case sendPushNotification e w uid n of
        (Inr result, w') \<Rightarrow> dispatchEach e w' n uids (s + sent result, f + failed result)
      | (Inl err, w') \<Rightarrow> dispatchEach e w' n uids (s, f + 1))"

text \<open>
  \<^verbatim>\<open>!targetUsers || targetUsers.length === 0 || !notificationType || !title || !body\<close>
  throws the bad-request error, which the handler's \<^verbatim>\<open>catch\<close> turns into the error
  response; \<^verbatim>\<open>targetUsers\<close> is always an array, so its own negation is never true.
\<close>

definition sendNotification :: "env \<Rightarrow> world \<Rightarrow> sendBody \<Rightarrow> response \<times> world" where
  "sendNotification e w b =
     (if length (targetUsers b) = 0 \<or> \<not> present (notificationType b)
         \<or> \<not> present (bTitle b) \<or> \<not> present (bBody b)
      then (ErrorResponse BadRequestError, w)
      else
        (case dispatchEach e w
                \<lparr>nType = strOf (notificationType b), nTitle = strOf (bTitle b),
                 nBody = strOf (bBody b), nData = bData b, nCategory = bCategory b\<rparr>
                (targetUsers b) (0, 0) of
           ((s, f), w') \<Rightarrow> (SendResponse (s > 0) s f, w')))"




section \<open>Predicates used in the statements\<close>

fun isPrefCall :: "call \<Rightarrow> bool" where
  "isPrefCall (PrefFindOne u) = True"
| "isPrefCall (PrefCreate u) = True"
| "isPrefCall (PrefSave u) = True"
| "isPrefCall c = False"

text \<open>Every stored preference record has the transactional push flag on.\<close>

definition transactionalPushOn :: "world \<Rightarrow> bool" where
  "transactionalPushOn w = (\<forall>u d. prefs w u = Some d \<longrightarrow> push (transactional d))"

text \<open>What the schema of the token collection enforces: \<^verbatim>\<open>token\<close> is unique and
  required (not empty).\<close>

definition tokensUnique :: "world \<Rightarrow> bool" where
  "tokensUnique w = (distinct (map token (tokens w)) \<and> [] \<notin> set (map token (tokens w)))"

text \<open>The non-empty tokens at the positions whose outcome satisfies \<open>P\<close>.\<close>

definition tokensWhere ::
    "(sendResponse \<Rightarrow> bool) \<Rightarrow> tokenDoc list \<Rightarrow> sendResponse list \<Rightarrow> string list" where
  "tokensWhere P toks rs =
     filter (\<lambda>t. t \<noteq> []) (map (\<lambda>(r, d). token d) (filter (\<lambda>(r, d). P r) (zip rs toks)))"

text \<open>After the gateway has answered at world \<open>w\<close>: the bulk update of the last-active times
  is issued and throws, or the bulk delete of the invalid tokens is issued and throws.\<close>

definition cleanupRaises :: "env \<Rightarrow> world \<Rightarrow> tokenDoc list \<Rightarrow> batchResponse \<Rightarrow> bool" where
  "cleanupRaises e w toks response =
     (let succ = tokensWhere success toks (responses response);
          inv = tokensWhere isInvalidToken toks (responses response)
      in (succ \<noteq> [] \<and> raises e (length (log w)) (TokUpdateMany succ))
         \<or> (inv \<noteq> []
             \<and> raises e (length (log w) + (if succ = [] then 0 else 1)) (TokDeleteMany inv)))"

text \<open>The gateway answers every token, and its two counters count its answers.\<close>

definition wellFormedResponse :: "batchResponse \<Rightarrow> tokenDoc list \<Rightarrow> bool" where
  "wellFormedResponse response toks =
     (length (responses response) = length toks
      \<and> successCount response = length (filter success (responses response))
      \<and> failureCount response = length (filter (\<lambda>r. \<not> success r) (responses response)))"

section \<open>Environments and worlds used as examples\<close>

text \<open>The user identifiers \<open>u1\<close>, \<open>a\<close>, \<open>b\<close> and \<open>c\<close>, as code units.\<close>

abbreviation u1 :: jsString where "u1 \<equiv> [0x75, 0x31]"
abbreviation userA :: jsString where "userA \<equiv> [0x61]"
abbreviation userB :: jsString where "userB \<equiv> [0x62]"
abbreviation userC :: jsString where "userC \<equiv> [0x63]"

text \<open>A table of keys that a stored document has besides the categories: the time stamps,
  the identifier, the constructor and the methods are objects without the three flags, the
  user identifier and the identifier string are strings; other keys hold nothing.\<close>

definition documentKeys :: "jsString \<Rightarrow> string \<Rightarrow> propVal" where
  "documentKeys u k =
     (if k \<in> set [''createdAt'', ''updatedAt'', ''_id'', ''constructor'', ''save'', ''toObject'']
      then OtherObject
      else if k \<in> set [''userId'', ''id''] then TruthyPrimitive
      else Falsy)"

definition noResponse :: batchResponse where
  "noResponse = \<lparr>responses = [], successCount = 0, failureCount = 0\<rparr>"

text \<open>Nothing fails, nobody interferes, the gateway answers nothing.\<close>

definition quietEnv :: env where
  "quietEnv = \<lparr>raises = (\<lambda>t c. False), raceInsert = (\<lambda>t. False),
                multicast = (\<lambda>t toks m. noResponse), clock = (\<lambda>t. int t),
                docProperty = documentKeys\<rparr>"

text \<open>Every external call fails.\<close>

definition downEnv :: env where
  "downEnv = quietEnv\<lparr>raises := (\<lambda>t c. True)\<rparr>"

definition emptyWorld :: world where
  "emptyWorld = \<lparr>prefs = Map.empty, tokens = [], log = []\<rparr>"

definition mutedDoc :: prefDoc where
  "mutedDoc = defaultPrefs\<lparr>keywordTaskAlerts := \<lparr>pushOnly = False\<rparr>\<rparr>"

text \<open>User \<open>u1\<close> has switched keyword alerts off.\<close>

definition mutedWorld :: world where
  "mutedWorld =
     \<lparr>prefs = [u1 \<mapsto> mutedDoc],
      tokens = [\<lparr>docId = 1, userId = u1, token = ''tok1'', platform = Android,
                 deviceId = Some ''dev1'', lastActive = 10\<rparr>],
      log = []\<rparr>"

definition pushOffPatch :: prefsPatch where
  "pushOffPatch =
     \<lparr>transactionalP = Some \<lparr>emailP = Some True, pushP = Some False, smsP = None\<rparr>,
      taskUpdatesP = None, taskRemindersP = None, keywordTaskAlertsP = None,
      recommendedTaskAlertsP = None, helpfulInformationP = None, updatesNewslettersP = None\<rparr>"

definition keywordPayload :: payload where
  "keywordPayload =
     \<lparr>nType = ''keyword_match'', nTitle = ''New task'', nBody = ''A task matches'',
      nData = None, nCategory = Some ''keywordTaskAlerts''\<rparr>"

definition plainPayload :: payload where
  "plainPayload =
     \<lparr>nType = ''task_update'', nTitle = ''Task updated'', nBody = ''Your task changed'',
      nData = Some [(''taskId'', ''42'')], nCategory = None\<rparr>"

fun isUpdateMany :: "call \<Rightarrow> bool" where
  "isUpdateMany (TokUpdateMany ts) = True"
| "isUpdateMany c = False"

definition delivered :: sendResponse where
  "delivered = \<lparr>success = True, errorCode = None\<rparr>"

definition transientFailure :: sendResponse where
  "transientFailure = \<lparr>success = False, errorCode = Some ''messaging/internal-error''\<rparr>"

definition notRegistered :: sendResponse where
  "notRegistered =
     \<lparr>success = False, errorCode = Some ''messaging/registration-token-not-registered''\<rparr>"

text \<open>The gateway delivers to every token, and the bulk update of the store fails.\<close>

definition cleanupFailsEnv :: env where
  "cleanupFailsEnv =
     \<lparr>raises = (\<lambda>t c. isUpdateMany c), raceInsert = (\<lambda>t. False),
      multicast = (\<lambda>t toks m. \<lparr>responses = map (\<lambda>x. delivered) toks,
                                 successCount = length toks, failureCount = 0\<rparr>),
      clock = (\<lambda>t. 100 + int t), docProperty = documentKeys\<rparr>"

text \<open>User \<open>u1\<close> has three devices; the gateway delivers to the first, fails transiently on
  the second and reports the third as not registered.\<close>

definition threeTokens :: "tokenDoc list" where
  "threeTokens =
     [\<lparr>docId = 1, userId = u1, token = ''tokA'', platform = Android,
       deviceId = Some ''devA'', lastActive = 30\<rparr>,
      \<lparr>docId = 2, userId = u1, token = ''tokB'', platform = Ios,
       deviceId = Some ''devB'', lastActive = 20\<rparr>,
      \<lparr>docId = 3, userId = u1, token = ''tokC'', platform = Web,
       deviceId = None, lastActive = 10\<rparr>]"

definition threeWorld :: world where
  "threeWorld = \<lparr>prefs = [u1 \<mapsto> defaultPrefs], tokens = threeTokens, log = []\<rparr>"

definition mixedResponse :: batchResponse where
  "mixedResponse =
     \<lparr>responses = [delivered, transientFailure, notRegistered],
      successCount = 1, failureCount = 2\<rparr>"

definition mixedEnv :: env where
  "mixedEnv = \<lparr>raises = (\<lambda>t c. False), raceInsert = (\<lambda>t. False),
               multicast = (\<lambda>t toks m. mixedResponse), clock = (\<lambda>t. 100 + int t),
               docProperty = documentKeys\<rparr>"

fun isDeleteMany :: "call \<Rightarrow> bool" where
  "isDeleteMany (TokDeleteMany ts) = True"
| "isDeleteMany c = False"

text \<open>As \<open>mixedEnv\<close>, but the bulk delete of the store fails.\<close>

definition deleteFailsEnv :: env where
  "deleteFailsEnv = mixedEnv\<lparr>raises := (\<lambda>t c. isDeleteMany c)\<rparr>"

text \<open>Users \<open>a\<close> and \<open>c\<close> have one device each, \<open>b\<close> has none; reading the tokens of \<open>b\<close>
  fails; the gateway delivers to every token.\<close>

definition abcWorld :: world where
  "abcWorld =
     \<lparr>prefs = Map.empty,
      tokens = [\<lparr>docId = 1, userId = userA, token = ''tokA'', platform = Android,
                 deviceId = Some ''devA'', lastActive = 5\<rparr>,
                \<lparr>docId = 2, userId = userC, token = ''tokC'', platform = Ios,
                 deviceId = Some ''devC'', lastActive = 6\<rparr>],
      log = []\<rparr>"

definition bFailsEnv :: env where
  "bFailsEnv = cleanupFailsEnv\<lparr>raises := (\<lambda>t c. c = TokFind (JStr userB))\<rparr>"




text \<open>A payload whose category is a key of the stored document that is not a category.\<close>

definition timestampPayload :: payload where
  "timestampPayload =
     \<lparr>nType = ''task_update'', nTitle = ''Task updated'', nBody = ''Your task changed'',
      nData = None, nCategory = Some ''createdAt''\<rparr>"

text \<open>Three registrations by user \<open>u1\<close>, starting from an empty store: token \<open>tokB\<close> for an
  old device, token \<open>tokA\<close> for device \<open>dev1\<close>, then \<open>tokB\<close> again, now for \<open>dev1\<close>.\<close>

definition afterOldDevice :: world where
  "afterOldDevice = snd (registerToken quietEnv emptyWorld u1 ''tokB'' Android (Some ''devOld''))"

definition afterFirstToken :: world where
  "afterFirstToken = snd (registerToken quietEnv afterOldDevice u1 ''tokA'' Android (Some ''dev1''))"

definition afterReusedToken :: world where
  "afterReusedToken = snd (registerToken quietEnv afterFirstToken u1 ''tokB'' Android (Some ''dev1''))"

section \<open>Worlds the service can be in\<close>

text \<open>What holds of the stores in every such world: the transactional push flag is on in
  every preference record, tokens are unique and not empty, document identifiers are unique.\<close>

definition storeInv :: "world \<Rightarrow> bool" where
  "storeInv w =
     (transactionalPushOn w \<and> tokensUnique w \<and> distinct (map docId (tokens w)))"

definition tokInv :: "tokenDoc list \<Rightarrow> bool" where
  "tokInv ds =
     (distinct (map token ds) \<and> [] \<notin> set (map token ds) \<and> distinct (map docId ds))"

text \<open>The worlds reached from empty stores by the operations of the service, in any order and
  under any environment.\<close>

inductive reachable :: "world \<Rightarrow> bool" where
  start: "reachable emptyWorld"
| check: "reachable w \<Longrightarrow> shouldSendNotification e w uid c ch = (b, w') \<Longrightarrow> reachable w'"
| getP: "reachable w \<Longrightarrow> getPreferences e w uid = (rp, w') \<Longrightarrow> reachable w'"
| updateP: "reachable w \<Longrightarrow> updatePreferences e w uid q = (rp, w') \<Longrightarrow> reachable w'"
| send: "reachable w \<Longrightarrow> sendPushNotification e w uid n = (rs, w') \<Longrightarrow> reachable w'"
| batch: "reachable w \<Longrightarrow> sendToMultipleUsers e w uids n = (rb, w') \<Longrightarrow> reachable w'"
| single: "reachable w \<Longrightarrow> sendNotification e w sb = (rr, w') \<Longrightarrow> reachable w'"
| register: "reachable w \<Longrightarrow> registerToken e w u tok p dev = (rt, w') \<Longrightarrow> reachable w'"

section \<open>Properties\<close>

subsection \<open>User identifiers\<close>

lemma dropWhile_all_iff: "(\<forall>x\<in>set (dropWhile P xs). P x) \<longleftrightarrow> (\<forall>x\<in>set xs. P x)"
proof
  assume a: "\<forall>x\<in>set (dropWhile P xs). P x"
  have "dropWhile P xs = []"
  proof (rule ccontr)
    assume n: "dropWhile P xs \<noteq> []"
    then have "\<not> P (hd (dropWhile P xs))" by (rule hd_dropWhile)
    moreover have "hd (dropWhile P xs) \<in> set (dropWhile P xs)" using n by simp
    ultimately show False using a by blast
  qed
  then show "\<forall>x\<in>set xs. P x" by (simp add: dropWhile_eq_Nil_conv)
next
  assume "\<forall>x\<in>set xs. P x"
  then show "\<forall>x\<in>set (dropWhile P xs). P x" by (meson set_dropWhileD)
qed

lemma trim_empty_iff: "trim s = [] \<longleftrightarrow> list_all isSpace s"
  by (simp add: trim_def dropWhile_eq_Nil_conv dropWhile_all_iff list_all_iff)

lemma invalidUserId_iff:
  "invalidUserId v \<longleftrightarrow> (\<forall>s. v \<noteq> JStr s) \<or> (\<exists>s. v = JStr s \<and> list_all isSpace s)"
  by (cases v) (auto simp: invalidUserId_def trim_empty_iff)


subsection \<open>The preference store\<close>

lemma findOnePrefs_simp:
  "findOnePrefs e w u =
     (if raises e (length (log w)) (PrefFindOne u)
      then (Inl StoreError, w\<lparr>log := log w @ [PrefFindOne u]\<rparr>)
      else (Inr (prefs w u), w\<lparr>log := log w @ [PrefFindOne u]\<rparr>))"
  by (simp add: findOnePrefs_def issue_def)

lemma findOnePrefs_stored:
  "findOnePrefs e w u = (Inr po, w') \<Longrightarrow>
     prefs w' u = po \<and> prefs w' = prefs w \<and> tokens w' = tokens w"
  by (auto simp: findOnePrefs_simp split: if_splits)

lemma createDefault_cases:
  "createDefault e w u = (r, w') \<Longrightarrow>
     (r = Inl StoreError \<and> prefs w' = prefs w) \<or>
     (r = Inl DuplicateKey \<and>
        (prefs w' = prefs w \<and> prefs w u \<noteq> None \<or>
         (raceInsert e (length (log w)) \<and> prefs w' = (prefs w)(u \<mapsto> defaultPrefs)))) \<or>
     (r = Inr defaultPrefs \<and> prefs w' = (prefs w)(u \<mapsto> defaultPrefs))"
  by (auto simp: createDefault_def issue_def split: if_splits option.splits)

lemma findOrCreate_stored:
  assumes "findOrCreate e w u = (Inr (Some d), w')"
  shows "prefs w' u = Some d"
  using assms
  by (auto simp: findOrCreate_def split: prod.splits sum.splits option.splits error.splits
           dest!: findOnePrefs_stored createDefault_cases)

subsection \<open>An unidentified user is never sent to\<close>

text \<open>
  Claim C7.  Whatever the category and the channel, when the user identifier is not a string,
  or is a string that is empty or holds white space only, \<^verbatim>\<open>shouldSendNotification\<close>
  answers \<open>False\<close> and leaves the world as it was: no preference record is read or created
  (the log of external calls does not grow).
\<close>

theorem shouldSend_invalid_user_denied:
  assumes "(\<forall>s. uid \<noteq> JStr s) \<or> (\<exists>s. uid = JStr s \<and> list_all isSpace s)"
  shows "shouldSendNotification e w uid category ch = (False, w)"
  using assms by (simp add: shouldSendNotification_def invalidUserId_iff)

theorem shouldSend_invalid_user_denied_witness:
  "((\<forall>s. JStr [0x20, 0xA0, 0x2028, 0xFEFF] \<noteq> JStr s)
      \<or> (\<exists>s. JStr [0x20, 0xA0, 0x2028, 0xFEFF] = JStr s \<and> list_all isSpace s))
   \<and> shouldSendNotification quietEnv emptyWorld (JStr [0x20, 0xA0, 0x2028, 0xFEFF]) ''taskUpdates'' Push
       = (False, emptyWorld)"
  using shouldSend_invalid_user_denied
          [of "JStr [0x20, 0xA0, 0x2028, 0xFEFF]" quietEnv emptyWorld "''taskUpdates''" Push]
  by (simp add: isSpace_def)

text \<open>
  Claim C10.  For a user identifier that is not a string, or is empty or blank,
  \<^verbatim>\<open>getPreferences\<close> does not fail: it returns the documented defaults and leaves the world
  as it was, so the preference store is neither read nor written and no default record is
  created.
\<close>

theorem getPreferences_invalid_user_defaults:
  assumes "(\<forall>s. uid \<noteq> JStr s) \<or> (\<exists>s. uid = JStr s \<and> list_all isSpace s)"
  shows "getPreferences e w uid =
     (Inr \<lparr>transactional = \<lparr>email = False, push = True, sms = True\<rparr>,
           taskUpdates = \<lparr>email = True, push = True, sms = True\<rparr>,
           taskReminders = \<lparr>email = True, push = True, sms = True\<rparr>,
           keywordTaskAlerts = \<lparr>pushOnly = True\<rparr>,
           recommendedTaskAlerts = \<lparr>pushOnly = True\<rparr>,
           helpfulInformation = \<lparr>email = True, push = True, sms = True\<rparr>,
           updatesNewsletters = \<lparr>email = True, push = True, sms = True\<rparr>\<rparr>, w)"
  using assms by (simp add: getPreferences_def invalidUserId_iff defaultPrefs_def allOn_def)

theorem getPreferences_invalid_user_defaults_witness:
  "((\<forall>s. JStr [0x3000, 0x0A, 0xA0] \<noteq> JStr s)
      \<or> (\<exists>s. JStr [0x3000, 0x0A, 0xA0] = JStr s \<and> list_all isSpace s))
   \<and> getPreferences downEnv mutedWorld (JStr [0x3000, 0x0A, 0xA0]) = (Inr defaultPrefs, mutedWorld)
   \<and> getPreferences downEnv mutedWorld (JNum 7) = (Inr defaultPrefs, mutedWorld)"
  using getPreferences_invalid_user_defaults [of "JStr [0x3000, 0x0A, 0xA0]" downEnv mutedWorld]
        getPreferences_invalid_user_defaults [of "JNum 7" downEnv mutedWorld]
  by (simp add: defaultPrefs_def allOn_def isSpace_def)

subsection \<open>Categories that exist for push only\<close>

text \<open>
  Claim C3, as stated: for every user the e-mail channel of \<open>keywordTaskAlerts\<close> is denied.
  It is not so when the preference store cannot be read: the \<^verbatim>\<open>catch\<close> of
  \<^verbatim>\<open>shouldSendNotification\<close> allows the send.
\<close>

theorem keyword_email_counterexample:
  "fst (shouldSendNotification downEnv emptyWorld (JStr u1) ''keywordTaskAlerts'' Email) = True"
  by (simp add: shouldSendNotification_def invalidUserId_def trim_def isSpace_def
        findOrCreate_def findOnePrefs_simp downEnv_def quietEnv_def emptyWorld_def)

text \<open>
  Claim C3, amended.  For a user with a non-blank identifier whose preference record is
  obtained (found, created with the defaults, or read again after a duplicate-key race), the
  record \<open>d\<close> is the one stored for the user after the call, and for \<open>keywordTaskAlerts\<close> and
  \<open>recommendedTaskAlerts\<close> the answer is the stored push flag when the channel is push and
  \<open>False\<close> for every other channel.
\<close>

theorem push_only_categories:
  assumes "findOrCreate e w u = (Inr (Some d), w')"
      and "\<not> list_all isSpace u"
  shows "prefs w' u = Some d
       \<and> shouldSendNotification e w (JStr u) ''keywordTaskAlerts'' ch
           = (ch = Push \<and> pushOnly (keywordTaskAlerts d), w')
       \<and> shouldSendNotification e w (JStr u) ''recommendedTaskAlerts'' ch
           = (ch = Push \<and> pushOnly (recommendedTaskAlerts d), w')"
  using assms findOrCreate_stored [OF assms(1)]
  by (simp add: shouldSendNotification_def invalidUserId_iff decide_def categoryPrefsOf_def)

theorem push_only_categories_witness:
  "findOrCreate quietEnv mutedWorld u1 = (Inr (Some mutedDoc), mutedWorld\<lparr>log := [PrefFindOne u1]\<rparr>)
   \<and> \<not> list_all isSpace u1
   \<and> shouldSendNotification quietEnv mutedWorld (JStr u1) ''keywordTaskAlerts'' Push
       = (False, mutedWorld\<lparr>log := [PrefFindOne u1]\<rparr>)
   \<and> shouldSendNotification quietEnv mutedWorld (JStr u1) ''recommendedTaskAlerts'' Push
       = (True, mutedWorld\<lparr>log := [PrefFindOne u1]\<rparr>)
   \<and> shouldSendNotification quietEnv mutedWorld (JStr u1) ''recommendedTaskAlerts'' Sms
       = (False, mutedWorld\<lparr>log := [PrefFindOne u1]\<rparr>)"
proof -
  have h1: "findOrCreate quietEnv mutedWorld u1
              = (Inr (Some mutedDoc), mutedWorld\<lparr>log := [PrefFindOne u1]\<rparr>)"
    by (simp add: findOrCreate_def findOnePrefs_simp quietEnv_def mutedWorld_def)
  have h2: "\<not> list_all isSpace u1"
    by (simp add: isSpace_def)
  show ?thesis
    using h1 h2 push_only_categories [OF h1 h2, of Push] push_only_categories [OF h1 h2, of Sms]
    by (simp add: mutedDoc_def defaultPrefs_def)
qed

subsection \<open>What a preference check touches\<close>

lemma findOnePrefs_frame:
  "findOnePrefs e w u = (r, w') \<Longrightarrow>
     tokens w' = tokens w \<and> prefs w' = prefs w \<and> log w' = log w @ [PrefFindOne u]"
  by (auto simp: findOnePrefs_simp split: if_splits)

lemma createDefault_frame:
  "createDefault e w u = (r, w') \<Longrightarrow> tokens w' = tokens w \<and> log w' = log w @ [PrefCreate u]"
  by (auto simp: createDefault_def issue_def split: if_splits option.splits)

lemma findOrCreate_frame:
  assumes "findOrCreate e w u = (r, w')"
  shows "tokens w' = tokens w \<and> (\<exists>new. log w' = log w @ new \<and> list_all isPrefCall new)"
  using assms
  by (auto simp: findOrCreate_def split: prod.splits sum.splits option.splits error.splits
           dest!: findOnePrefs_frame createDefault_frame)

lemma shouldSend_frame:
  assumes "shouldSendNotification e w uid c ch = (b, w')"
  shows "tokens w' = tokens w \<and> (\<exists>new. log w' = log w @ new \<and> list_all isPrefCall new)"
  using assms
  by (auto simp: shouldSendNotification_def
           split: if_splits jsval.splits prod.splits sum.splits option.splits
           dest!: findOrCreate_frame)

text \<open>When the check denies: the identifier is invalid, or a record is obtained and the
  decision on it is a denial; and the decision is a denial for a push-only category when the
  channel is not push or the flag is off, for another category when the flag of the channel
  is off, and for any other key of the document that holds an object without the three
  flags.\<close>

lemma shouldSend_denies_iff:
  "shouldSendNotification e w uid c ch = (False, w') \<longleftrightarrow>
     (invalidUserId uid \<and> w' = w)
     \<or> (\<exists>u p. uid = JStr u \<and> \<not> invalidUserId uid
            \<and> findOrCreate e w u = (Inr (Some p), w')
            \<and> decide (docProperty e u) p c ch = Inr False)"
  by (cases uid)
     (auto simp: shouldSendNotification_def invalidUserId_def
           split: prod.splits sum.splits option.splits)

lemma decide_denies_iff:
  "decide other p c ch = Inr False \<longleftrightarrow>
     (if c = ''keywordTaskAlerts'' then \<not> (ch = Push \<and> pushOnly (keywordTaskAlerts p))
      else if c = ''recommendedTaskAlerts'' then \<not> (ch = Push \<and> pushOnly (recommendedTaskAlerts p))
      else (case categoryPrefsOf other p c of
              Three f \<Rightarrow> \<not> channelFlag f ch
            | One f \<Rightarrow> True
            | OtherObject \<Rightarrow> True
            | _ \<Rightarrow> False))"
  by (auto simp: decide_def categoryPrefsOf_def split: propVal.splits)

text \<open>
  Claim C8.  When the preference check denies the send, \<^verbatim>\<open>sendPushNotification\<close> returns
  zero sent and zero failed (a result, not an error), in the world the preference check left:
  the token collection is as before and every external call made is a call to the preference
  store, so no token was read and the transport was not invoked.
\<close>

theorem denied_send_reads_no_tokens:
  assumes "shouldSendNotification e w uid (categoryOrDefault n) Push = (False, w1)"
  shows "sendPushNotification e w uid n = (Inr \<lparr>success' = True, sent = 0, failed = 0\<rparr>, w1)
       \<and> tokens w1 = tokens w
       \<and> (\<exists>new. log w1 = log w @ new \<and> list_all isPrefCall new)"
  using assms shouldSend_frame [OF assms]
  by (simp add: sendPushNotification_def)

theorem denied_send_reads_no_tokens_witness:
  "shouldSendNotification quietEnv mutedWorld (JStr u1) (categoryOrDefault keywordPayload) Push
     = (False, mutedWorld\<lparr>log := [PrefFindOne u1]\<rparr>)
   \<and> sendPushNotification quietEnv mutedWorld (JStr u1) keywordPayload
     = (Inr \<lparr>success' = True, sent = 0, failed = 0\<rparr>, mutedWorld\<lparr>log := [PrefFindOne u1]\<rparr>)
   \<and> shouldSendNotification quietEnv threeWorld (JStr u1) (categoryOrDefault timestampPayload) Push
     = (False, threeWorld\<lparr>log := [PrefFindOne u1]\<rparr>)
   \<and> sendPushNotification quietEnv threeWorld (JStr u1) timestampPayload
     = (Inr \<lparr>success' = True, sent = 0, failed = 0\<rparr>, threeWorld\<lparr>log := [PrefFindOne u1]\<rparr>)
   \<and> sendPushNotification quietEnv threeWorld (JStr [0xA0, 0x2029]) plainPayload
     = (Inr \<lparr>success' = True, sent = 0, failed = 0\<rparr>, threeWorld)"
proof -
  have h: "shouldSendNotification quietEnv mutedWorld (JStr u1) (categoryOrDefault keywordPayload) Push
             = (False, mutedWorld\<lparr>log := [PrefFindOne u1]\<rparr>)"
    by (simp add: shouldSendNotification_def invalidUserId_def trim_def isSpace_def
          findOrCreate_def findOnePrefs_simp decide_def categoryPrefsOf_def categoryOrDefault_def
          keywordPayload_def quietEnv_def mutedWorld_def mutedDoc_def)
  have k: "shouldSendNotification quietEnv threeWorld (JStr u1) (categoryOrDefault timestampPayload) Push
             = (False, threeWorld\<lparr>log := [PrefFindOne u1]\<rparr>)"
    by (simp add: shouldSendNotification_def invalidUserId_def trim_def isSpace_def
          findOrCreate_def findOnePrefs_simp decide_def categoryPrefsOf_def categoryOrDefault_def
          timestampPayload_def quietEnv_def threeWorld_def documentKeys_def)
  have b: "shouldSendNotification quietEnv threeWorld (JStr [0xA0, 0x2029]) (categoryOrDefault plainPayload) Push
             = (False, threeWorld)"
    by (simp add: shouldSendNotification_def invalidUserId_def trim_def isSpace_def)
  show ?thesis
    using h k b denied_send_reads_no_tokens [OF h] denied_send_reads_no_tokens [OF k]
          denied_send_reads_no_tokens [OF b]
    by simp
qed

subsection \<open>The transactional push flag\<close>

lemma createDefault_inv:
  "transactionalPushOn w \<Longrightarrow> createDefault e w u = (r, w') \<Longrightarrow> transactionalPushOn w'"
  by (auto simp: createDefault_def issue_def transactionalPushOn_def defaultPrefs_def
           split: if_splits option.splits)

lemma findOnePrefs_inv:
  "transactionalPushOn w \<Longrightarrow> findOnePrefs e w u = (r, w') \<Longrightarrow> transactionalPushOn w'"
  by (auto simp: findOnePrefs_simp transactionalPushOn_def split: if_splits)

lemma findOrCreate_inv:
  assumes "transactionalPushOn w" and "findOrCreate e w u = (r, w')"
  shows "transactionalPushOn w'"
  using assms
  by (auto simp: findOrCreate_def split: prod.splits sum.splits option.splits error.splits)
     (meson findOnePrefs_inv createDefault_inv)+

text \<open>A read that succeeds always yields a record, and it is the stored one.\<close>

lemma findOrCreate_Some:
  assumes "findOrCreate e w u = (Inr po, w')"
  shows "\<exists>d. po = Some d \<and> prefs w' u = Some d"
  using assms
  by (auto simp: findOrCreate_def split: prod.splits sum.splits option.splits error.splits
           dest!: findOnePrefs_stored createDefault_cases)

lemma patchDoc_push:
  "push (transactional d) \<or> transactionalP q \<noteq> None \<Longrightarrow> push (transactional (patchDoc d q))"
  by (auto simp: patchDoc_def Let_def split: option.splits)

lemma updatePreferences_returns:
  assumes "updatePreferences e w uid q = (Inr p, w')"
  shows "\<exists>u d w1. uid = JStr u \<and> findOrCreate e w u = (Inr (Some d), w1) \<and> p = patchDoc d q
           \<and> prefs w' = (prefs w1)(u \<mapsto> p)"
proof -
  have valid: "\<not> invalidUserId uid"
    using assms by (auto simp: updatePreferences_def)
  then obtain u where uid: "uid = JStr u"
    by (auto simp: invalidUserId_iff)
  obtain fr w1 where foc: "findOrCreate e w u = (fr, w1)"
    by (metis surj_pair)
  then obtain d where fr: "fr = Inr (Some d)"
    using assms valid uid findOrCreate_Some [of e w u _ w1]
    by (cases fr) (auto simp: updatePreferences_def)
  have "p = patchDoc d q \<and> prefs w' = (prefs w1)(u \<mapsto> p)"
    using assms valid uid foc fr
    by (auto simp: updatePreferences_def applyPatch_def savePrefs_def issue_def orDefaults_def
             split: if_splits)
  then show ?thesis using uid foc fr by blast
qed

lemma updatePreferences_throws:
  assumes "updatePreferences e w uid q = (Inl err, w')"
  shows "prefs w' = prefs w \<or> (\<exists>u fr w1. findOrCreate e w u = (fr, w1) \<and> prefs w' = prefs w1)"
proof (cases "invalidUserId uid")
  case True
  then show ?thesis using assms by (simp add: updatePreferences_def)
next
  case False
  then obtain u where uid: "uid = JStr u"
    by (auto simp: invalidUserId_iff)
  obtain fr w1 where foc: "findOrCreate e w u = (fr, w1)"
    by (metis surj_pair)
  have "prefs w' = prefs w1"
    using assms False uid foc
    by (auto simp: updatePreferences_def savePrefs_def issue_def
             split: sum.splits option.splits if_splits)
  then show ?thesis using foc by blast
qed

lemma updatePreferences_keeps:
  assumes "transactionalPushOn w" and "updatePreferences e w uid q = (r, w')"
  shows "transactionalPushOn w'"
proof (cases r)
  case (Inl err)
  then show ?thesis
    using assms updatePreferences_throws [of e w uid q err w'] findOrCreate_inv [OF assms(1)]
    by (auto simp: transactionalPushOn_def)
next
  case (Inr p)
  then obtain u d w1 where *: "findOrCreate e w u = (Inr (Some d), w1)" "p = patchDoc d q"
      "prefs w' = (prefs w1)(u \<mapsto> p)"
    using assms(2) updatePreferences_returns by blast
  have inv1: "transactionalPushOn w1"
    using assms(1) *(1) by (rule findOrCreate_inv)
  moreover have "push (transactional d)"
    using inv1 findOrCreate_stored [OF *(1)] by (auto simp: transactionalPushOn_def)
  ultimately show ?thesis
    using * patchDoc_push [of d q] by (auto simp: transactionalPushOn_def)
qed

text \<open>
  Claim C2.  In a store where every record has the transactional push flag on, which is
  every store the service can be in (\<open>reachable_storeInv\<close> below: records come to exist
  with the defaults only), whatever the user and whatever the supplied partial preferences,
  after \<^verbatim>\<open>updatePreferences\<close> every stored record still has the flag on, and when the call
  returns preferences they are the ones stored for the user and have it on.  The value
  supplied for the flag plays no part.
\<close>

theorem updatePreferences_transactional_push:
  assumes "transactionalPushOn w"
      and "updatePreferences e w uid q = (r, w')"
  shows "transactionalPushOn w'
       \<and> (\<forall>p. r = Inr p \<longrightarrow> push (transactional p) \<and> (\<exists>u. uid = JStr u \<and> prefs w' u = Some p))"
proof (intro conjI allI impI)
  show "transactionalPushOn w'"
    using assms by (rule updatePreferences_keeps)
next
  fix p
  assume r: "r = Inr p"
  then obtain u d w1 where *: "uid = JStr u" "findOrCreate e w u = (Inr (Some d), w1)"
      "p = patchDoc d q" "prefs w' = (prefs w1)(u \<mapsto> p)"
    using assms(2) updatePreferences_returns by blast
  have "transactionalPushOn w1"
    using assms(1) *(2) by (rule findOrCreate_inv)
  then have "push (transactional d)"
    using findOrCreate_stored [OF *(2)] by (auto simp: transactionalPushOn_def)
  then show "push (transactional p)"
    using *(3) patchDoc_push by blast
  show "\<exists>u. uid = JStr u \<and> prefs w' u = Some p"
    using *(1,4) by simp
qed

theorem updatePreferences_transactional_push_witness:
  "transactionalPushOn mutedWorld
   \<and> pushP (the (transactionalP pushOffPatch)) = Some False
   \<and> (case updatePreferences quietEnv mutedWorld (JStr u1) pushOffPatch of
        (r, w') \<Rightarrow>
          transactionalPushOn w'
          \<and> (\<exists>p. r = Inr p \<and> push (transactional p) \<and> email (transactional p)
                  \<and> prefs w' u1 = Some p))"
proof -
  have h1: "transactionalPushOn mutedWorld"
    by (simp add: transactionalPushOn_def mutedWorld_def mutedDoc_def defaultPrefs_def)
  obtain r w' where h2: "updatePreferences quietEnv mutedWorld (JStr u1) pushOffPatch = (r, w')"
    by (cases "updatePreferences quietEnv mutedWorld (JStr u1) pushOffPatch")
  have r: "r = Inr (patchDoc mutedDoc pushOffPatch)"
    using h2
    by (auto simp: updatePreferences_def invalidUserId_def trim_def isSpace_def findOrCreate_def
          findOnePrefs_simp applyPatch_def savePrefs_def issue_def orDefaults_def
          quietEnv_def mutedWorld_def)
  have em: "email (transactional (patchDoc mutedDoc pushOffPatch))"
    by (simp add: patchDoc_def merge3_def pushOffPatch_def)
  show ?thesis
    using h1 h2 r em updatePreferences_transactional_push [OF h1 h2]
    by (simp add: pushOffPatch_def)
qed

subsection \<open>Fan-out to the devices of one user\<close>

lemma mapTokens_ok:
  "idx + length rs \<le> length toks \<Longrightarrow>
     mapTokens P toks idx rs =
       Inr (map (\<lambda>(r, d). if P r then Some (token d) else None) (zip rs (drop idx toks)))"
proof (induction rs arbitrary: idx)
  case Nil
  then show ?case by simp
next
  case (Cons r rs)
  then have lt: "idx < length toks" and le: "Suc idx + length rs \<le> length toks"
    by simp_all
  have dr: "drop idx toks = toks ! idx # drop (Suc idx) toks"
    using lt by (simp add: Cons_nth_drop_Suc)
  show ?case
    using Cons.IH [OF le] lt by (simp add: dr)
qed

lemma filterBoolean_map:
  "filterBoolean (map (\<lambda>(r, d). if P r then Some (token d) else None) zs) =
     filter (\<lambda>t. t \<noteq> []) (map (\<lambda>(r, d). token d) (filter (\<lambda>(r, d). P r) zs))"
  by (induction zs) auto

lemma picked_tokens:
  assumes "length rs = length toks"
  shows "\<exists>ms. mapTokens P toks 0 rs = Inr ms \<and> filterBoolean ms = tokensWhere P toks rs"
  using assms mapTokens_ok [of 0 rs toks P]
  by (simp add: filterBoolean_map tokensWhere_def)

lemma afterMulticast_simp:
  assumes "length (responses response) = length toks"
  shows "afterMulticast e w toks response =
     (let succ = tokensWhere success toks (responses response);
          inv = tokensWhere isInvalidToken toks (responses response) in
      case (if succ \<noteq> [] then updateManyLastActive e w succ else (Inr (), w)) of
        (Inl err, w1) \<Rightarrow> (Inl (Failed ''Failed to send push notification''), w1)
      | (Inr x, w1) \<Rightarrow>
          (case (if inv \<noteq> [] then deleteManyTokens e w1 inv else (Inr (), w1)) of
             (Inl err, w2) \<Rightarrow> (Inl (Failed ''Failed to send push notification''), w2)
           | (Inr y, w2) \<Rightarrow>
               (Inr \<lparr>success' = successCount response > 0, sent = successCount response,
                     failed = failureCount response\<rparr>, w2)))"
proof -
  obtain ms where ms: "mapTokens success toks 0 (responses response) = Inr ms"
      "filterBoolean ms = tokensWhere success toks (responses response)"
    using picked_tokens [OF assms] by blast
  obtain ns where ns: "mapTokens isInvalidToken toks 0 (responses response) = Inr ns"
      "filterBoolean ns = tokensWhere isInvalidToken toks (responses response)"
    using picked_tokens [OF assms] by blast
  show ?thesis
    by (auto simp: afterMulticast_def ms ns Let_def split: prod.splits sum.splits)
qed


lemma afterMulticast_result:
  assumes "length (responses response) = length toks"
      and "afterMulticast e w toks response = (Inr result, w')"
  shows "sent result = successCount response \<and> failed result = failureCount response
       \<and> tokens w' =
           filter (\<lambda>d. token d \<notin> set (tokensWhere isInvalidToken toks (responses response)))
             (map (\<lambda>d. if token d \<in> set (tokensWhere success toks (responses response))
                        then d\<lparr>lastActive := clock e (length (log w))\<rparr> else d)
                  (tokens w))"
  using assms(2) unfolding afterMulticast_simp [OF assms(1)]
  by (auto simp: Let_def updateManyLastActive_def deleteManyTokens_def issue_def
           split: if_splits prod.splits sum.splits)

lemma afterMulticast_raises:
  assumes "length (responses response) = length toks"
      and "cleanupRaises e w toks response"
  shows "fst (afterMulticast e w toks response) = Inl (Failed ''Failed to send push notification'')"
  using assms(2) unfolding afterMulticast_simp [OF assms(1)]
  by (auto simp: cleanupRaises_def Let_def updateManyLastActive_def deleteManyTokens_def issue_def
           split: if_splits prod.splits sum.splits)

lemma in_tokensWhere:
  assumes "length rs = length toks" and "i < length toks" and "P (rs ! i)"
      and "token (toks ! i) \<noteq> []"
  shows "token (toks ! i) \<in> set (tokensWhere P toks rs)"
proof -
  have "(rs ! i, toks ! i) \<in> set (zip rs toks)"
    using assms(1,2) by (auto simp: in_set_zip)
  then show ?thesis
    using assms(3,4) by (force simp: tokensWhere_def)
qed

lemma tokensWhere_only:
  assumes "length rs = length toks" and "distinct (map token toks)" and "i < length toks"
      and "token (toks ! i) \<in> set (tokensWhere P toks rs)"
  shows "P (rs ! i)"
proof -
  from assms(4) obtain r d where rd: "(r, d) \<in> set (zip rs toks)" "P r" "token d = token (toks ! i)"
    by (auto simp: tokensWhere_def)
  then obtain j where j: "j < length toks" "rs ! j = r" "toks ! j = d"
    using assms(1) by (auto simp: in_set_zip)
  have "map token toks ! j = map token toks ! i"
    using j rd(3) assms(3) by simp
  then have "j = i"
    using nth_eq_iff_index_eq [OF assms(2), of j i] assms(3) j(1) by (metis length_map)
  then show ?thesis using j rd(2) by simp
qed

lemma getUserFCMTokens_found:
  assumes "getUserFCMTokens e w uid = (Inr toks, w')"
  shows "tokens w' = tokens w \<and> prefs w' = prefs w \<and> log w' = log w @ [TokFind uid]
       \<and> set toks = {d \<in> set (tokens w). uid = JStr (userId d)}
       \<and> (distinct (map token (tokens w)) \<longrightarrow> distinct (map token toks))"
  using assms
  by (auto simp: getUserFCMTokens_def issue_def distinct_map distinct_map_filter
           split: if_splits intro: inj_on_subset)

lemma sendEachForMulticast_answered:
  assumes "sendEachForMulticast e w ts m = (Inr response, w')"
  shows "tokens w' = tokens w \<and> prefs w' = prefs w \<and> log w' = log w @ [Multicast ts]
       \<and> response = multicast e (length (log w)) ts m"
  using assms by (auto simp: sendEachForMulticast_def issue_def split: if_splits)

lemma mem_map: "d \<in> set xs \<Longrightarrow> f d \<in> set (map f xs)"
  by simp

text \<open>
  Claim C1.  Take a send that the preference check allows, that finds the non-empty token list
  \<open>toks\<close>, and to which the gateway answers \<open>response\<close>, one outcome per token and its two
  counters counting them; the token collection has unique, non-empty tokens, as its schema
  enforces and as holds in every world the service can be in (\<open>reachable_storeInv\<close> below).
  When the call returns a result, \<open>sent\<close> is the number of successes and \<open>failed\<close>
  the number of failures whatever their cause; every token with a success has its last-active
  time set to the time of the update; every token whose failure code is
  \<^verbatim>\<open>messaging/invalid-registration-token\<close> or
  \<^verbatim>\<open>messaging/registration-token-not-registered\<close> is gone from the collection; every
  token with another failure is still there, unchanged.  The witness is the case of three
  tokens with outcomes success, transient failure, not registered: one sent, two failed, one
  token refreshed, one deleted.
\<close>

theorem fanout_outcomes:
  assumes allowed: "shouldSendNotification e w uid (categoryOrDefault n) Push = (True, w1)"
      and found: "getUserFCMTokens e w1 uid = (Inr toks, w2)" and ne: "toks \<noteq> []"
      and answered: "sendEachForMulticast e w2 (map token toks) (buildMessage n) = (Inr response, w3)"
      and wf: "wellFormedResponse response toks"
      and uniq: "tokensUnique w"
      and returned: "sendPushNotification e w uid n = (Inr result, w')"
  shows "sent result = length (filter success (responses response))
       \<and> failed result = length (filter (\<lambda>r. \<not> success r) (responses response))
       \<and> (\<forall>i < length toks.
            (success (responses response ! i) \<longrightarrow>
               (toks ! i)\<lparr>lastActive := clock e (length (log w3))\<rparr> \<in> set (tokens w'))
          \<and> (isInvalidToken (responses response ! i) \<longrightarrow>
               token (toks ! i) \<notin> set (map token (tokens w')))
          \<and> (\<not> success (responses response ! i) \<and> \<not> isInvalidToken (responses response ! i) \<longrightarrow>
               toks ! i \<in> set (tokens w')))"
proof -
  let ?rs = "responses response"
  let ?succ = "tokensWhere success toks ?rs"
  let ?inv = "tokensWhere isInvalidToken toks ?rs"
  let ?upd = "\<lambda>d. if token d \<in> set ?succ then d\<lparr>lastActive := clock e (length (log w3))\<rparr> else d"
  have len: "length ?rs = length toks"
    using wf by (simp add: wellFormedResponse_def)
  have t1: "tokens w1 = tokens w"
    using shouldSend_frame [OF allowed] by simp
  have f: "tokens w2 = tokens w1" "set toks = {d \<in> set (tokens w1). uid = JStr (userId d)}"
      "distinct (map token toks)"
    using getUserFCMTokens_found [OF found] uniq t1 by (simp_all add: tokensUnique_def)
  have t3: "tokens w3 = tokens w"
    using sendEachForMulticast_answered [OF answered] f(1) t1 by simp
  have "sendPushNotification e w uid n = afterMulticast e w3 toks response"
    using allowed found ne answered by (simp add: sendPushNotification_def)
  then have am: "afterMulticast e w3 toks response = (Inr result, w')"
    using returned by simp
  note res = afterMulticast_result [OF len am]
  have toks': "tokens w' = filter (\<lambda>d. token d \<notin> set ?inv) (map ?upd (tokens w))"
    using res t3 by simp
  have counts: "sent result = length (filter success ?rs)"
      "failed result = length (filter (\<lambda>r. \<not> success r) ?rs)"
    using res wf by (simp_all add: wellFormedResponse_def)
  have each: "(success (?rs ! i) \<longrightarrow>
               (toks ! i)\<lparr>lastActive := clock e (length (log w3))\<rparr> \<in> set (tokens w'))
          \<and> (isInvalidToken (?rs ! i) \<longrightarrow> token (toks ! i) \<notin> set (map token (tokens w')))
          \<and> (\<not> success (?rs ! i) \<and> \<not> isInvalidToken (?rs ! i) \<longrightarrow> toks ! i \<in> set (tokens w'))"
    if i: "i < length toks" for i
  proof -
    have mem: "toks ! i \<in> set (tokens w)"
      using i f(2) t1 nth_mem [OF i] by auto
    then have nonempty: "token (toks ! i) \<noteq> []"
      using uniq by (force simp: tokensUnique_def)
    have inS: "token (toks ! i) \<in> set ?succ \<longleftrightarrow> success (?rs ! i)"
      using in_tokensWhere [OF len i _ nonempty] tokensWhere_only [OF len f(3) i] by blast
    have inI: "token (toks ! i) \<in> set ?inv \<longleftrightarrow> isInvalidToken (?rs ! i)"
      using in_tokensWhere [OF len i _ nonempty] tokensWhere_only [OF len f(3) i] by blast
    have excl: "isInvalidToken (?rs ! i) \<Longrightarrow> \<not> success (?rs ! i)"
      by (simp add: isInvalidToken_def)
    have a: "success (?rs ! i) \<Longrightarrow>
               (toks ! i)\<lparr>lastActive := clock e (length (log w3))\<rparr> \<in> set (tokens w')"
    proof -
      assume s: "success (?rs ! i)"
      then have "?upd (toks ! i) = (toks ! i)\<lparr>lastActive := clock e (length (log w3))\<rparr>"
        using inS by simp
      moreover have "?upd (toks ! i) \<in> set (map ?upd (tokens w))"
        using mem_map [OF mem, of ?upd] by simp
      moreover have "token (?upd (toks ! i)) \<notin> set ?inv"
        using s inI excl by auto
      ultimately show ?thesis
        unfolding toks' by simp
    qed
    have b: "isInvalidToken (?rs ! i) \<Longrightarrow> token (toks ! i) \<notin> set (map token (tokens w'))"
      unfolding toks' using inI by auto
    have c: "\<not> success (?rs ! i) \<Longrightarrow> \<not> isInvalidToken (?rs ! i) \<Longrightarrow> toks ! i \<in> set (tokens w')"
    proof -
      assume "\<not> success (?rs ! i)" "\<not> isInvalidToken (?rs ! i)"
      then have "?upd (toks ! i) = toks ! i" "token (toks ! i) \<notin> set ?inv"
        using inS inI by simp_all
      moreover have "?upd (toks ! i) \<in> set (map ?upd (tokens w))"
        using mem_map [OF mem, of ?upd] by simp
      ultimately show ?thesis
        unfolding toks' by simp
    qed
    show ?thesis using a b c by blast
  qed
  show ?thesis
    using counts each by blast
qed


text \<open>The example of three devices, step by step.\<close>

lemma threeWorld_allowed:
  "shouldSendNotification e threeWorld (JStr u1) (categoryOrDefault plainPayload) Push
     = (True, threeWorld\<lparr>log := [PrefFindOne u1]\<rparr>)"
  by (simp add: shouldSendNotification_def invalidUserId_def trim_def isSpace_def
        findOrCreate_def findOnePrefs_simp decide_def categoryPrefsOf_def categoryOrDefault_def
        plainPayload_def threeWorld_def defaultPrefs_def allOn_def)

lemma threeWorld_found:
  "\<not> raises e 1 (TokFind (JStr u1)) \<Longrightarrow>
   getUserFCMTokens e (threeWorld\<lparr>log := [PrefFindOne u1]\<rparr>) (JStr u1)
     = (Inr threeTokens, threeWorld\<lparr>log := [PrefFindOne u1, TokFind (JStr u1)]\<rparr>)"
  by (simp add: getUserFCMTokens_def issue_def threeWorld_def threeTokens_def)

theorem fanout_outcomes_witness:
  "shouldSendNotification mixedEnv threeWorld (JStr u1) (categoryOrDefault plainPayload) Push
     = (True, threeWorld\<lparr>log := [PrefFindOne u1]\<rparr>)
   \<and> getUserFCMTokens mixedEnv (threeWorld\<lparr>log := [PrefFindOne u1]\<rparr>) (JStr u1)
     = (Inr threeTokens, threeWorld\<lparr>log := [PrefFindOne u1, TokFind (JStr u1)]\<rparr>)
   \<and> threeTokens \<noteq> []
   \<and> sendEachForMulticast mixedEnv (threeWorld\<lparr>log := [PrefFindOne u1, TokFind (JStr u1)]\<rparr>)
        (map token threeTokens) (buildMessage plainPayload)
     = (Inr mixedResponse,
        threeWorld\<lparr>log := [PrefFindOne u1, TokFind (JStr u1),
                            Multicast [''tokA'', ''tokB'', ''tokC'']]\<rparr>)
   \<and> wellFormedResponse mixedResponse threeTokens
   \<and> tokensUnique threeWorld
   \<and> sendPushNotification mixedEnv threeWorld (JStr u1) plainPayload
     = (Inr \<lparr>success' = True, sent = 1, failed = 2\<rparr>,
        threeWorld\<lparr>log := [PrefFindOne u1, TokFind (JStr u1),
                            Multicast [''tokA'', ''tokB'', ''tokC''],
                            TokUpdateMany [''tokA''], TokDeleteMany [''tokC'']],
                    tokens := [(threeTokens ! 0)\<lparr>lastActive := 103\<rparr>, threeTokens ! 1]\<rparr>)"
proof -
  let ?w1 = "threeWorld\<lparr>log := [PrefFindOne u1]\<rparr>"
  let ?w2 = "threeWorld\<lparr>log := [PrefFindOne u1, TokFind (JStr u1)]\<rparr>"
  let ?w3 = "threeWorld\<lparr>log := [PrefFindOne u1, TokFind (JStr u1),
                                 Multicast [''tokA'', ''tokB'', ''tokC'']]\<rparr>"
  have h1: "shouldSendNotification mixedEnv threeWorld (JStr u1) (categoryOrDefault plainPayload) Push
              = (True, ?w1)"
    by (simp add: threeWorld_allowed)
  have h2: "getUserFCMTokens mixedEnv ?w1 (JStr u1) = (Inr threeTokens, ?w2)"
    by (rule threeWorld_found) (simp add: mixedEnv_def)
  have h3: "threeTokens \<noteq> []"
    by (simp add: threeTokens_def)
  have h4: "sendEachForMulticast mixedEnv ?w2 (map token threeTokens) (buildMessage plainPayload)
              = (Inr mixedResponse, ?w3)"
    by (simp add: sendEachForMulticast_def issue_def mixedEnv_def threeTokens_def threeWorld_def)
  have h5: "wellFormedResponse mixedResponse threeTokens"
    by (simp add: wellFormedResponse_def mixedResponse_def threeTokens_def delivered_def
          transientFailure_def notRegistered_def)
  have h6: "tokensUnique threeWorld"
    by (simp add: tokensUnique_def threeWorld_def threeTokens_def)
  have am: "afterMulticast mixedEnv ?w3 threeTokens mixedResponse
              = (Inr \<lparr>success' = True, sent = 1, failed = 2\<rparr>,
        threeWorld\<lparr>log := [PrefFindOne u1, TokFind (JStr u1),
                            Multicast [''tokA'', ''tokB'', ''tokC''],
                            TokUpdateMany [''tokA''], TokDeleteMany [''tokC'']],
                    tokens := [(threeTokens ! 0)\<lparr>lastActive := 103\<rparr>, threeTokens ! 1]\<rparr>)"
    by (simp add: afterMulticast_def mixedResponse_def threeTokens_def delivered_def
          transientFailure_def notRegistered_def isInvalidToken_def updateManyLastActive_def
          deleteManyTokens_def issue_def mixedEnv_def threeWorld_def)
  have h7: "sendPushNotification mixedEnv threeWorld (JStr u1) plainPayload
     = (Inr \<lparr>success' = True, sent = 1, failed = 2\<rparr>,
        threeWorld\<lparr>log := [PrefFindOne u1, TokFind (JStr u1),
                            Multicast [''tokA'', ''tokB'', ''tokC''],
                            TokUpdateMany [''tokA''], TokDeleteMany [''tokC'']],
                    tokens := [(threeTokens ! 0)\<lparr>lastActive := 103\<rparr>, threeTokens ! 1]\<rparr>)"
    using h1 h2 h3 h4 am by (simp add: sendPushNotification_def)
  show ?thesis
    using h1 h2 h3 h4 h5 h6 h7 fanout_outcomes [OF h1 h2 h3 h4 h5 h6 h7]
    by simp
qed

subsection \<open>Failures after the gateway has answered\<close>

text \<open>
  Claim C5, as stated: once the gateway has answered, a failure of the bulk update or of the
  bulk delete does not hide the counts.  It does: the gateway delivers to the one token of
  \<open>u1\<close>, the bulk update throws, and the call throws instead of returning one sent.
\<close>

theorem cleanup_failure_masks_result_counterexample:
  "sendPushNotification cleanupFailsEnv mutedWorld (JStr u1) plainPayload
     = (Inl (Failed ''Failed to send push notification''),
        mutedWorld\<lparr>log := [PrefFindOne u1, TokFind (JStr u1), Multicast [''tok1''],
                            TokUpdateMany [''tok1'']]\<rparr>)"
proof -
  have h1: "shouldSendNotification cleanupFailsEnv mutedWorld (JStr u1) (categoryOrDefault plainPayload) Push
              = (True, mutedWorld\<lparr>log := [PrefFindOne u1]\<rparr>)"
    by (simp add: shouldSendNotification_def invalidUserId_def trim_def isSpace_def
        findOrCreate_def findOnePrefs_simp decide_def categoryPrefsOf_def categoryOrDefault_def
        plainPayload_def mutedWorld_def mutedDoc_def defaultPrefs_def allOn_def cleanupFailsEnv_def)
  have h2: "getUserFCMTokens cleanupFailsEnv (mutedWorld\<lparr>log := [PrefFindOne u1]\<rparr>) (JStr u1)
              = (Inr (tokens mutedWorld), mutedWorld\<lparr>log := [PrefFindOne u1, TokFind (JStr u1)]\<rparr>)"
    by (simp add: getUserFCMTokens_def issue_def mutedWorld_def cleanupFailsEnv_def)
  show ?thesis
    by (simp add: sendPushNotification_def h1 h2)
       (simp add: mutedWorld_def sendEachForMulticast_def issue_def cleanupFailsEnv_def
          afterMulticast_def delivered_def updateManyLastActive_def)
qed

text \<open>
  Claim C5, amended.  Every exception inside \<^verbatim>\<open>sendPushNotification\<close> reaches the caller as
  the dispatch failure "Failed to send push notification": when reading the tokens fails, when
  the transport call fails, and also when the transport has answered and the bulk update of
  the last-active times or the bulk delete of the invalid tokens throws.  In the last case the
  counts computed from the answer are not returned.
\<close>

theorem dispatch_failure_propagates:
  assumes allowed: "shouldSendNotification e w uid (categoryOrDefault n) Push = (True, w1)"
      and fails:
        "(\<exists>err w2. getUserFCMTokens e w1 uid = (Inl err, w2))
         \<or> (\<exists>toks w2. getUserFCMTokens e w1 uid = (Inr toks, w2) \<and> toks \<noteq> []
               \<and> ((\<exists>err w3. sendEachForMulticast e w2 (map token toks) (buildMessage n) = (Inl err, w3))
                  \<or> (\<exists>response w3.
                        sendEachForMulticast e w2 (map token toks) (buildMessage n) = (Inr response, w3)
                        \<and> length (responses response) = length toks
                        \<and> cleanupRaises e w3 toks response)))"
  shows "fst (sendPushNotification e w uid n) = Inl (Failed ''Failed to send push notification'')"
  using fails
proof (elim disjE exE conjE)
  fix err w2
  assume "getUserFCMTokens e w1 uid = (Inl err, w2)"
  then show ?thesis using allowed by (simp add: sendPushNotification_def)
next
  fix toks w2 err w3
  assume "getUserFCMTokens e w1 uid = (Inr toks, w2)" "toks \<noteq> []"
     "sendEachForMulticast e w2 (map token toks) (buildMessage n) = (Inl err, w3)"
  then show ?thesis using allowed by (simp add: sendPushNotification_def)
next
  fix toks w2 response w3
  assume a: "getUserFCMTokens e w1 uid = (Inr toks, w2)" "toks \<noteq> []"
     "sendEachForMulticast e w2 (map token toks) (buildMessage n) = (Inr response, w3)"
     and len: "length (responses response) = length toks"
     and cr: "cleanupRaises e w3 toks response"
  have "sendPushNotification e w uid n = afterMulticast e w3 toks response"
    using allowed a by (simp add: sendPushNotification_def)
  then show ?thesis
    using afterMulticast_raises [OF len cr] by simp
qed

theorem dispatch_failure_propagates_witness:
  "shouldSendNotification deleteFailsEnv threeWorld (JStr u1) (categoryOrDefault plainPayload) Push
     = (True, threeWorld\<lparr>log := [PrefFindOne u1]\<rparr>)
   \<and> getUserFCMTokens deleteFailsEnv (threeWorld\<lparr>log := [PrefFindOne u1]\<rparr>) (JStr u1)
     = (Inr threeTokens, threeWorld\<lparr>log := [PrefFindOne u1, TokFind (JStr u1)]\<rparr>)
   \<and> threeTokens \<noteq> []
   \<and> sendEachForMulticast deleteFailsEnv
        (threeWorld\<lparr>log := [PrefFindOne u1, TokFind (JStr u1)]\<rparr>)
        (map token threeTokens) (buildMessage plainPayload)
     = (Inr mixedResponse,
        threeWorld\<lparr>log := [PrefFindOne u1, TokFind (JStr u1),
                            Multicast [''tokA'', ''tokB'', ''tokC'']]\<rparr>)
   \<and> length (responses mixedResponse) = length threeTokens
   \<and> cleanupRaises deleteFailsEnv
        (threeWorld\<lparr>log := [PrefFindOne u1, TokFind (JStr u1),
                            Multicast [''tokA'', ''tokB'', ''tokC'']]\<rparr>) threeTokens mixedResponse
   \<and> fst (sendPushNotification deleteFailsEnv threeWorld (JStr u1) plainPayload)
     = Inl (Failed ''Failed to send push notification'')"
proof -
  let ?w1 = "threeWorld\<lparr>log := [PrefFindOne u1]\<rparr>"
  let ?w2 = "threeWorld\<lparr>log := [PrefFindOne u1, TokFind (JStr u1)]\<rparr>"
  let ?w3 = "threeWorld\<lparr>log := [PrefFindOne u1, TokFind (JStr u1),
                                 Multicast [''tokA'', ''tokB'', ''tokC'']]\<rparr>"
  have h1: "shouldSendNotification deleteFailsEnv threeWorld (JStr u1)
              (categoryOrDefault plainPayload) Push = (True, ?w1)"
    by (simp add: threeWorld_allowed)
  have h2: "getUserFCMTokens deleteFailsEnv ?w1 (JStr u1) = (Inr threeTokens, ?w2)"
    by (rule threeWorld_found) (simp add: deleteFailsEnv_def mixedEnv_def)
  have h3: "threeTokens \<noteq> []"
    by (simp add: threeTokens_def)
  have h4: "sendEachForMulticast deleteFailsEnv ?w2 (map token threeTokens) (buildMessage plainPayload)
              = (Inr mixedResponse, ?w3)"
    by (simp add: sendEachForMulticast_def issue_def deleteFailsEnv_def mixedEnv_def
          threeTokens_def threeWorld_def)
  have h5: "length (responses mixedResponse) = length threeTokens"
    by (simp add: mixedResponse_def threeTokens_def)
  have h6: "cleanupRaises deleteFailsEnv ?w3 threeTokens mixedResponse"
    by (simp add: cleanupRaises_def tokensWhere_def mixedResponse_def threeTokens_def
          delivered_def transientFailure_def notRegistered_def isInvalidToken_def
          deleteFailsEnv_def mixedEnv_def threeWorld_def)
  have hyp: "(\<exists>err w2. getUserFCMTokens deleteFailsEnv ?w1 (JStr u1) = (Inl err, w2))
         \<or> (\<exists>toks w2. getUserFCMTokens deleteFailsEnv ?w1 (JStr u1) = (Inr toks, w2) \<and> toks \<noteq> []
               \<and> ((\<exists>err w3. sendEachForMulticast deleteFailsEnv w2 (map token toks) (buildMessage plainPayload) = (Inl err, w3))
                  \<or> (\<exists>response w3.
                        sendEachForMulticast deleteFailsEnv w2 (map token toks) (buildMessage plainPayload) = (Inr response, w3)
                        \<and> length (responses response) = length toks
                        \<and> cleanupRaises deleteFailsEnv w3 toks response)))"
    using h2 h3 h4 h5 h6 by blast
  show ?thesis
    using h1 h2 h3 h4 h5 h6 dispatch_failure_propagates [OF h1 hyp] by simp
qed

subsection \<open>Batches\<close>

lemma sendEach_run:
  "sendEach e w n uids (s, f) =
     ((s + sum_list (map sentOf (perUserOutcomes e w n uids)),
       f + sum_list (map failedOf (perUserOutcomes e w n uids))),
      worldAfterEach e w n uids)"
proof (induction uids arbitrary: w s f)
  case Nil
  then show ?case by simp
next
  case (Cons uid uids)
  obtain r w1 where step: "sendPushNotification e w uid n = (r, w1)"
    by (cases "sendPushNotification e w uid n")
  show ?case
  proof (cases r)
    case (Inl err)
    then show ?thesis using step Cons.IH [of w1 s "f + 1"] by simp
  next
    case (Inr res)
    then show ?thesis
      using step Cons.IH [of w1 "s + sent res" "f + failed res"] by simp
  qed
qed


lemma nth_perUserOutcomes:
  "i < length uids \<Longrightarrow>
     perUserOutcomes e w n uids ! i =
       fst (sendPushNotification e (worldAfterEach e w n (take i uids)) (uids ! i) n)"
proof (induction uids arbitrary: w i)
  case Nil
  then show ?case by simp
next
  case (Cons uid uids)
  show ?case
  proof (cases i)
    case 0
    then show ?thesis by (simp split: prod.splits)
  next
    case (Suc j)
    then have "j < length uids" using Cons.prems by simp
    then show ?thesis
      using Cons.IH [of j "snd (sendPushNotification e w uid n)"] Suc
      by (auto split: prod.splits)
  qed
qed

lemma length_perUserOutcomes: "length (perUserOutcomes e w n uids) = length uids"
  by (induction uids arbitrary: w) (auto split: prod.splits)

text \<open>
  Claim C4.  For every list of user identifiers and every payload, \<^verbatim>\<open>sendToMultipleUsers\<close>
  returns \<open>total\<close> equal to the length of the list, whatever happens; \<open>sent\<close> and \<open>failed\<close> are
  the sums over the users, in order, of what each user's send returned, a send that throws
  counting as zero sent and one failed.  Every user is processed: there is one outcome per
  user, the outcome at each position is that of \<^verbatim>\<open>sendPushNotification\<close> for that user
  in the world the sends to the users before it have left, whether or not one of them threw,
  and the batch leaves the world that the sends to all users, in turn, leave.
\<close>

theorem sendToMultipleUsers_totals:
  "sendToMultipleUsers e w userIds n =
     (\<lparr>total' = length userIds,
       totalSent = sum_list (map sentOf (perUserOutcomes e w n userIds)),
       totalFailed = sum_list (map failedOf (perUserOutcomes e w n userIds))\<rparr>,
      worldAfterEach e w n userIds)
   \<and> length (perUserOutcomes e w n userIds) = length userIds
   \<and> (\<forall>i < length userIds.
         perUserOutcomes e w n userIds ! i =
           fst (sendPushNotification e (worldAfterEach e w n (take i userIds)) (userIds ! i) n))"
  by (simp add: sendToMultipleUsers_def sendEach_run length_perUserOutcomes nth_perUserOutcomes)

text \<open>The batch \<open>a\<close>, \<open>b\<close>, \<open>c\<close> in which the send to \<open>b\<close> throws.\<close>

lemmas batchExample = sendPushNotification_def shouldSendNotification_def invalidUserId_def trim_def isSpace_def
        findOrCreate_def findOnePrefs_simp createDefault_def issue_def decide_def categoryPrefsOf_def categoryOrDefault_def
        abcWorld_def defaultPrefs_def allOn_def bFailsEnv_def cleanupFailsEnv_def
        getUserFCMTokens_def sendEachForMulticast_def afterMulticast_def delivered_def updateManyLastActive_def isInvalidToken_def

lemma abc_outcomes:
  "nCategory n = None \<Longrightarrow>
   perUserOutcomes bFailsEnv abcWorld n [JStr userA, JStr userB, JStr userC] =
     [Inr \<lparr>success' = True, sent = 1, failed = 0\<rparr>,
      Inl (Failed ''Failed to send push notification''),
      Inr \<lparr>success' = True, sent = 1, failed = 0\<rparr>]"
  by (simp add: batchExample)

lemma abc_world:
  "nCategory n = None \<Longrightarrow>
   map (\<lambda>d. (token d, lastActive d))
     (tokens (worldAfterEach bFailsEnv abcWorld n [JStr userA, JStr userB, JStr userC]))
     = [(''tokA'', 104), (''tokC'', 112)]"
  by (simp add: batchExample)

theorem sendToMultipleUsers_totals_witness:
  "(1::nat) < length [JStr userA, JStr userB, JStr userC]
   \<and> fst (sendToMultipleUsers bFailsEnv abcWorld [JStr userA, JStr userB, JStr userC] plainPayload)
       = \<lparr>total' = 3, totalSent = 2, totalFailed = 1\<rparr>
   \<and> map (\<lambda>d. (token d, lastActive d))
        (tokens (snd (sendToMultipleUsers bFailsEnv abcWorld
                        [JStr userA, JStr userB, JStr userC] plainPayload)))
       = [(''tokA'', 104), (''tokC'', 112)]
   \<and> fst (sendPushNotification bFailsEnv
             (worldAfterEach bFailsEnv abcWorld plainPayload (take 1 [JStr userA, JStr userB, JStr userC]))
             ([JStr userA, JStr userB, JStr userC] ! 1) plainPayload)
       = Inl (Failed ''Failed to send push notification'')"
proof -
  have c: "nCategory plainPayload = None"
    by (simp add: plainPayload_def)
  note t = sendToMultipleUsers_totals
             [of bFailsEnv abcWorld "[JStr userA, JStr userB, JStr userC]" plainPayload]
  have third: "perUserOutcomes bFailsEnv abcWorld plainPayload [JStr userA, JStr userB, JStr userC] ! 1 =
           fst (sendPushNotification bFailsEnv
                 (worldAfterEach bFailsEnv abcWorld plainPayload
                    (take 1 [JStr userA, JStr userB, JStr userC]))
                 ([JStr userA, JStr userB, JStr userC] ! 1) plainPayload)"
    using t by (metis One_nat_def length_Cons lessI less_Suc_eq list.size(3) numeral_3_eq_3)
  have first: "sendToMultipleUsers bFailsEnv abcWorld [JStr userA, JStr userB, JStr userC] plainPayload =
     (\<lparr>total' = 3, totalSent = 2, totalFailed = 1\<rparr>,
      worldAfterEach bFailsEnv abcWorld plainPayload [JStr userA, JStr userB, JStr userC])"
    using t unfolding abc_outcomes [OF c] by simp
  show ?thesis
    using first third abc_world [OF c] unfolding abc_outcomes [OF c] by simp
qed


subsection \<open>Validation at the single-send entry point\<close>





subsection \<open>One token per user and device\<close>

lemmas registerEval = registerToken_def findOneToken_def createToken_def saveToken_def preSave_def
  validateToken_def freshId_def issue_def quietEnv_def emptyWorld_def Let_def

lemma afterOldDevice_eq:
  "afterOldDevice =
     \<lparr>prefs = Map.empty,
      tokens = [\<lparr>docId = 1, userId = u1, token = ''tokB'', platform = Android,
                 deviceId = Some ''devOld'', lastActive = 1\<rparr>],
      log = [TokFindOne ''tokB'', TokDeleteDevice u1 ''devOld'', TokInsert ''tokB'']\<rparr>"
  by (simp add: afterOldDevice_def registerEval)

lemma afterFirstToken_eq:
  "afterFirstToken =
     \<lparr>prefs = Map.empty,
      tokens = [\<lparr>docId = 1, userId = u1, token = ''tokB'', platform = Android,
                 deviceId = Some ''devOld'', lastActive = 1\<rparr>,
                \<lparr>docId = 2, userId = u1, token = ''tokA'', platform = Android,
                 deviceId = Some ''dev1'', lastActive = 4\<rparr>],
      log = [TokFindOne ''tokB'', TokDeleteDevice u1 ''devOld'', TokInsert ''tokB'',
             TokFindOne ''tokA'', TokDeleteDevice u1 ''dev1'', TokInsert ''tokA'']\<rparr>"
  by (auto simp: afterFirstToken_def afterOldDevice_eq registerEval)

text \<open>
  Claim C9, as stated: after a second, different token is registered for the same user and
  device, one record exists for the pair.  Not when the second token is already stored: the
  existing record is updated in place, the hook does not run for a document that is not new,
  and the first token's record stays.  After the three registrations both \<open>tokB\<close> and \<open>tokA\<close>
  are records of user \<open>u1\<close> and device \<open>dev1\<close>.
\<close>

theorem reused_token_counterexample:
  "map token (recordsFor afterReusedToken u1 ''dev1'') = [''tokB'', ''tokA'']"
  by (auto simp: afterReusedToken_def afterFirstToken_eq registerEval recordsFor_def)

lemma docId_less_freshId: "x \<in> set ds \<Longrightarrow> docId x < freshId ds"
proof -
  assume "x \<in> set ds"
  then have "docId x \<in> set (0 # map docId ds)" by simp
  then have "docId x \<le> Max (set (0 # map docId ds))" by (intro Max_ge) simp_all
  moreover have "Max (set (0 # map docId ds)) = fold max (map docId ds) 0"
    by (rule Max.set_eq_fold)
  ultimately show ?thesis by (simp add: freshId_def)
qed

lemma findOneToken_frame:
  "findOneToken e w tok = (r, w') \<Longrightarrow> tokens w' = tokens w \<and> prefs w' = prefs w"
  by (auto simp: findOneToken_def issue_def split: if_splits)

lemma findOneToken_Some:
  "findOneToken e w tok = (Inr (Some d), w') \<Longrightarrow> d \<in> set (tokens w) \<and> token d = tok"
  by (auto simp: findOneToken_def issue_def find_Some_iff split: if_splits)

lemma createToken_fresh:
  assumes "createToken e w u tok p (Some dev) = (Inr d, w')" and "dev \<noteq> []"
  shows "recordsFor w' u dev = [d] \<and> token d = tok \<and> set (map token (tokens w')) \<subseteq> insert tok (set (map token (tokens w)))"
proof -
  let ?d = "\<lparr>docId = freshId (tokens w), userId = u, token = tok, platform = p,
               deviceId = Some dev, lastActive = clock e (length (log w))\<rparr>"
  have gone: "filter (\<lambda>x. userId x = u \<and> deviceId x = Some dev)
          (filter (\<lambda>x. \<not> (userId x = u \<and> deviceId x = Some dev \<and> docId x \<noteq> freshId (tokens w))) (tokens w)) = []"
    by (auto simp: filter_empty_conv dest: docId_less_freshId)
  show ?thesis
    using assms gone
    by (auto simp: createToken_def preSave_def issue_def Let_def recordsFor_def
             split: if_splits prod.splits sum.splits)
qed

text \<open>
  Claim C9, amended.  For every user and every non-empty device identifier, after a token and
  then a second, different token are registered for the same user and device (both calls
  returning), the second token being held by no stored record when it is registered, exactly
  one record exists for the pair: the one returned by the second call, carrying the second
  token.  The witness registers \<open>tokB\<close>, \<open>tokA\<close> and \<open>tokB\<close> again for one device.
\<close>

theorem registerToken_one_per_device:
  assumes first: "registerToken e w u tokA p (Some dev) = (Inr dA, w1)"
      and second: "registerToken e' w1 u tokB p' (Some dev) = (Inr dB, w2)"
      and different: "tokB \<noteq> tokA"
      and fresh: "tokB \<notin> set (map token (tokens w1))"
      and device: "dev \<noteq> []"
  shows "recordsFor w2 u dev = [dB] \<and> token dB = tokB"
proof -
  have nf: "find (\<lambda>d. token d = tokB) (tokens w1) = None"
    using fresh by (auto simp: find_None_iff)
  have nr: "\<not> raises e' (length (log w1)) (TokFindOne tokB)"
    using second by (auto simp: registerToken_def findOneToken_def issue_def)
  define w1' where "w1' = w1\<lparr>log := log w1 @ [TokFindOne tokB]\<rparr>"
  have miss: "findOneToken e' w1 tokB = (Inr None, w1')"
    using nf nr by (simp add: findOneToken_def issue_def w1'_def)
  have "createToken e' w1' u tokB p' (Some dev) = (Inr dB, w2)"
    using second miss by (auto simp: registerToken_def split: prod.splits sum.splits)
  then show ?thesis
    using createToken_fresh device by blast
qed

theorem registerToken_one_per_device_witness:
  "registerToken quietEnv emptyWorld u1 ''tokB'' Android (Some ''dev1'')
     = (Inr \<lparr>docId = 1, userId = u1, token = ''tokB'', platform = Android,
              deviceId = Some ''dev1'', lastActive = 1\<rparr>,
        \<lparr>prefs = Map.empty,
         tokens = [\<lparr>docId = 1, userId = u1, token = ''tokB'', platform = Android,
                    deviceId = Some ''dev1'', lastActive = 1\<rparr>],
         log = [TokFindOne ''tokB'', TokDeleteDevice u1 ''dev1'', TokInsert ''tokB'']\<rparr>)
   \<and> registerToken quietEnv
        \<lparr>prefs = Map.empty,
         tokens = [\<lparr>docId = 1, userId = u1, token = ''tokB'', platform = Android,
                    deviceId = Some ''dev1'', lastActive = 1\<rparr>],
         log = [TokFindOne ''tokB'', TokDeleteDevice u1 ''dev1'', TokInsert ''tokB'']\<rparr>
        u1 ''tokA'' Android (Some ''dev1'')
     = (Inr \<lparr>docId = 2, userId = u1, token = ''tokA'', platform = Android,
              deviceId = Some ''dev1'', lastActive = 4\<rparr>,
        \<lparr>prefs = Map.empty,
         tokens = [\<lparr>docId = 2, userId = u1, token = ''tokA'', platform = Android,
                    deviceId = Some ''dev1'', lastActive = 4\<rparr>],
         log = [TokFindOne ''tokB'', TokDeleteDevice u1 ''dev1'', TokInsert ''tokB'',
                TokFindOne ''tokA'', TokDeleteDevice u1 ''dev1'', TokInsert ''tokA'']\<rparr>)
   \<and> registerToken quietEnv
        \<lparr>prefs = Map.empty,
         tokens = [\<lparr>docId = 2, userId = u1, token = ''tokA'', platform = Android,
                    deviceId = Some ''dev1'', lastActive = 4\<rparr>],
         log = [TokFindOne ''tokB'', TokDeleteDevice u1 ''dev1'', TokInsert ''tokB'',
                TokFindOne ''tokA'', TokDeleteDevice u1 ''dev1'', TokInsert ''tokA'']\<rparr>
        u1 ''tokB'' Ios (Some ''dev1'')
     = (Inr \<lparr>docId = 3, userId = u1, token = ''tokB'', platform = Ios,
              deviceId = Some ''dev1'', lastActive = 7\<rparr>,
        \<lparr>prefs = Map.empty,
         tokens = [\<lparr>docId = 3, userId = u1, token = ''tokB'', platform = Ios,
                    deviceId = Some ''dev1'', lastActive = 7\<rparr>],
         log = [TokFindOne ''tokB'', TokDeleteDevice u1 ''dev1'', TokInsert ''tokB'',
                TokFindOne ''tokA'', TokDeleteDevice u1 ''dev1'', TokInsert ''tokA'',
                TokFindOne ''tokB'', TokDeleteDevice u1 ''dev1'', TokInsert ''tokB'']\<rparr>)
   \<and> ''tokB'' \<noteq> ''tokA''
   \<and> ''dev1'' \<noteq> []
   \<and> recordsFor
        \<lparr>prefs = Map.empty,
         tokens = [\<lparr>docId = 3, userId = u1, token = ''tokB'', platform = Ios,
                    deviceId = Some ''dev1'', lastActive = 7\<rparr>],
         log = [TokFindOne ''tokB'', TokDeleteDevice u1 ''dev1'', TokInsert ''tokB'',
                TokFindOne ''tokA'', TokDeleteDevice u1 ''dev1'', TokInsert ''tokA'',
                TokFindOne ''tokB'', TokDeleteDevice u1 ''dev1'', TokInsert ''tokB'']\<rparr>
        u1 ''dev1''
     = [\<lparr>docId = 3, userId = u1, token = ''tokB'', platform = Ios,
         deviceId = Some ''dev1'', lastActive = 7\<rparr>]"
proof -
  let ?d0 = "\<lparr>docId = 1, userId = u1, token = ''tokB'', platform = Android,
              deviceId = Some ''dev1'', lastActive = 1\<rparr>"
  let ?w0 = "\<lparr>prefs = Map.empty, tokens = [?d0],
         log = [TokFindOne ''tokB'', TokDeleteDevice u1 ''dev1'', TokInsert ''tokB'']\<rparr>"
  let ?dA = "\<lparr>docId = 2, userId = u1, token = ''tokA'', platform = Android,
              deviceId = Some ''dev1'', lastActive = 4\<rparr>"
  let ?wA = "\<lparr>prefs = Map.empty, tokens = [?dA],
         log = [TokFindOne ''tokB'', TokDeleteDevice u1 ''dev1'', TokInsert ''tokB'',
                TokFindOne ''tokA'', TokDeleteDevice u1 ''dev1'', TokInsert ''tokA'']\<rparr>"
  let ?dB = "\<lparr>docId = 3, userId = u1, token = ''tokB'', platform = Ios,
              deviceId = Some ''dev1'', lastActive = 7\<rparr>"
  let ?wB = "\<lparr>prefs = Map.empty, tokens = [?dB],
         log = [TokFindOne ''tokB'', TokDeleteDevice u1 ''dev1'', TokInsert ''tokB'',
                TokFindOne ''tokA'', TokDeleteDevice u1 ''dev1'', TokInsert ''tokA'',
                TokFindOne ''tokB'', TokDeleteDevice u1 ''dev1'', TokInsert ''tokB'']\<rparr>"
  have h0: "registerToken quietEnv emptyWorld u1 ''tokB'' Android (Some ''dev1'') = (Inr ?d0, ?w0)"
    by (simp add: registerEval)
  have h1: "registerToken quietEnv ?w0 u1 ''tokA'' Android (Some ''dev1'') = (Inr ?dA, ?wA)"
    by (auto simp: registerEval)
  have h2: "registerToken quietEnv ?wA u1 ''tokB'' Ios (Some ''dev1'') = (Inr ?dB, ?wB)"
    by (auto simp: registerEval)
  have h3: "''tokB'' \<noteq> ''tokA''" by simp
  have h4: "''tokB'' \<notin> set (map token (tokens ?wA))" by simp
  have h5: "''dev1'' \<noteq> []" by simp
  show ?thesis
    using h0 h1 h2 registerToken_one_per_device [OF h1 h2 h3 h4 h5] by simp
qed

subsection \<open>The store invariants hold in every reachable world\<close>

text \<open>The hypotheses on the stores made above (the transactional push flag is on, tokens are
  unique and not empty) are not restrictions: they hold at the start and every operation of
  the service keeps them.\<close>

lemma storeInv_alt: "storeInv w \<longleftrightarrow> transactionalPushOn w \<and> tokInv (tokens w)"
  by (auto simp: storeInv_def tokensUnique_def tokInv_def)

lemma tokInv_filter: "tokInv ds \<Longrightarrow> tokInv (filter P ds)"
  by (auto simp: tokInv_def distinct_map_filter)

lemma tokInv_touch:
  "tokInv ds \<Longrightarrow> tokInv (map (\<lambda>d. if Q d then d\<lparr>lastActive := t\<rparr> else d) ds)"
proof -
  have "map token (map (\<lambda>d. if Q d then d\<lparr>lastActive := t\<rparr> else d) ds) = map token ds"
       "map docId (map (\<lambda>d. if Q d then d\<lparr>lastActive := t\<rparr> else d) ds) = map docId ds"
    by (induction ds) auto
  then show "tokInv ds \<Longrightarrow> ?thesis" by (simp only: tokInv_def) simp
qed

lemma pref_ops_inv:
  assumes "storeInv w" and "findOrCreate e w u = (r, w')"
  shows "storeInv w'"
  using assms findOrCreate_inv [OF _ assms(2)] findOrCreate_frame [OF assms(2)]
  by (simp add: storeInv_def tokensUnique_def)

lemma shouldSend_inv:
  assumes "storeInv w" and "shouldSendNotification e w uid c ch = (b, w')"
  shows "storeInv w'"
  using assms
  by (auto simp: shouldSendNotification_def
           split: if_splits jsval.splits prod.splits sum.splits option.splits
           dest: pref_ops_inv)

lemma getPreferences_inv:
  assumes "storeInv w" and "getPreferences e w uid = (r, w')"
  shows "storeInv w'"
  using assms
  by (auto simp: getPreferences_def
           split: if_splits jsval.splits prod.splits sum.splits option.splits
           dest: pref_ops_inv)

lemma afterMulticast_inv:
  assumes "storeInv w" and "afterMulticast e w toks response = (r, w')"
  shows "storeInv w'"
  using assms
  by (auto simp: afterMulticast_def Let_def updateManyLastActive_def deleteManyTokens_def issue_def
                 storeInv_alt transactionalPushOn_def
           split: if_splits prod.splits sum.splits
           intro!: tokInv_filter tokInv_touch)


lemma getUserFCMTokens_frame:
  "getUserFCMTokens e w uid = (r, w') \<Longrightarrow> tokens w' = tokens w \<and> prefs w' = prefs w"
  by (auto simp: getUserFCMTokens_def issue_def split: if_splits)

lemma sendEachForMulticast_frame:
  "sendEachForMulticast e w ts m = (r, w') \<Longrightarrow> tokens w' = tokens w \<and> prefs w' = prefs w"
  by (auto simp: sendEachForMulticast_def issue_def split: if_splits)

lemma storeInv_cong: "tokens w' = tokens w \<Longrightarrow> prefs w' = prefs w \<Longrightarrow> storeInv w' = storeInv w"
  by (simp add: storeInv_def tokensUnique_def transactionalPushOn_def)

lemma sendPushNotification_inv:
  assumes "storeInv w" and "sendPushNotification e w uid n = (r, w')"
  shows "storeInv w'"
proof -
  obtain b w1 where c: "shouldSendNotification e w uid (categoryOrDefault n) Push = (b, w1)"
    by (metis surj_pair)
  have i1: "storeInv w1" using assms(1) c by (rule shouldSend_inv)
  obtain fr w2 where f: "getUserFCMTokens e w1 uid = (fr, w2)"
    by (metis surj_pair)
  have i2: "storeInv w2"
    using i1 storeInv_cong getUserFCMTokens_frame [OF f] by blast
  obtain mr w3 where m: "sendEachForMulticast e w2 (map token (case fr of Inr toks \<Rightarrow> toks | Inl x \<Rightarrow> []))
                           (buildMessage n) = (mr, w3)"
    by (metis surj_pair)
  have i3: "storeInv w3"
    using i2 storeInv_cong sendEachForMulticast_frame [OF m] by blast
  show ?thesis
    using assms(2) c f m i1 i2 i3
    by (auto simp: sendPushNotification_def split: if_splits sum.splits dest: afterMulticast_inv)
qed

lemma sendEach_inv:
  "storeInv w \<Longrightarrow> sendEach e w n uids (s, f) = (r, w') \<Longrightarrow> storeInv w'"
proof (induction uids arbitrary: w s f)
  case Nil
  then show ?case by simp
next
  case (Cons uid uids)
  obtain r1 w1 where step: "sendPushNotification e w uid n = (r1, w1)"
    by (metis surj_pair)
  have "storeInv w1" using Cons.prems(1) step by (rule sendPushNotification_inv)
  then show ?case
    using Cons.prems(2) step Cons.IH by (cases r1) auto
qed

lemma dispatchEach_inv:
  "storeInv w \<Longrightarrow> dispatchEach e w n uids (s, f) = (r, w') \<Longrightarrow> storeInv w'"
proof (induction uids arbitrary: w s f)
  case Nil
  then show ?case by simp
next
  case (Cons uid uids)
  obtain r1 w1 where step: "sendPushNotification e w uid n = (r1, w1)"
    by (metis surj_pair)
  have "storeInv w1" using Cons.prems(1) step by (rule sendPushNotification_inv)
  then show ?case
    using Cons.prems(2) step Cons.IH by (cases r1) auto
qed

lemma sendToMultipleUsers_inv:
  "storeInv w \<Longrightarrow> sendToMultipleUsers e w uids n = (r, w') \<Longrightarrow> storeInv w'"
  by (auto simp: sendToMultipleUsers_def split: prod.splits dest: sendEach_inv)

lemma sendNotification_inv:
  "storeInv w \<Longrightarrow> sendNotification e w b = (r, w') \<Longrightarrow> storeInv w'"
  by (auto simp: sendNotification_def split: if_splits prod.splits dest: dispatchEach_inv)

lemma replace_by_id:
  assumes "distinct (map docId ds)" and "d0 \<in> set ds" and "docId d = docId d0" and "token d = token d0"
  shows "map token (map (\<lambda>x. if docId x = docId d then d else x) ds) = map token ds
       \<and> map docId (map (\<lambda>x. if docId x = docId d then d else x) ds) = map docId ds"
proof -
  have "x \<in> set ds \<Longrightarrow> docId x = docId d \<Longrightarrow> x = d0" for x
    using assms(1,2,3) by (metis distinct_map inj_onD)
  then show ?thesis using assms(4) by (auto simp: map_idI)
qed

lemma tokInv_append:
  "tokInv xs \<Longrightarrow> token d \<notin> set (map token xs) \<Longrightarrow> token d \<noteq> [] \<Longrightarrow>
     docId d \<notin> set (map docId xs) \<Longrightarrow> tokInv (xs @ [d])"
  by (auto simp: tokInv_def)

lemma freshId_new: "freshId ds \<notin> set (map docId (filter P ds))"
  using docId_less_freshId [of _ ds] by fastforce

lemma saveToken_inv:
  assumes "storeInv w" and "d0 \<in> set (tokens w)" and "docId d = docId d0" and "token d = token d0"
      and "saveToken e w d = (r, w')"
  shows "storeInv w'"
proof -
  have d: "distinct (map docId (tokens w))"
    using assms(1) by (simp add: storeInv_def)
  note rep = replace_by_id [OF d assms(2,3,4)]
  have "tokInv (map (\<lambda>x. if docId x = docId d then d else x) (tokens w))"
    using assms(1) rep by (simp only: storeInv_alt tokInv_def) simp
  then show ?thesis
    using assms(1,5)
    by (auto simp: saveToken_def preSave_def issue_def storeInv_alt transactionalPushOn_def
             split: if_splits option.splits)
qed

lemma createToken_inv:
  assumes "storeInv w" and "createToken e w u tok p dev = (r, w')"
  shows "storeInv w'"
proof -
  let ?d = "\<lparr>docId = freshId (tokens w), userId = u, token = tok, platform = p,
               deviceId = dev, lastActive = clock e (length (log w))\<rparr>"
  have base: "tokInv (tokens w)" "transactionalPushOn w"
    using assms(1) by (simp_all add: storeInv_alt)
  have app: "tokInv (filter P (tokens w) @ [?d])"
    if "tok \<notin> set (map token (filter P (tokens w)))" "tok \<noteq> []" for P
    using tokInv_append [of "filter P (tokens w)" ?d] tokInv_filter [OF base(1), of P]
          freshId_new [of "tokens w" P] that by simp
  have app0: "tokInv (tokens w @ [?d])" if "tok \<notin> set (map token (tokens w))" "tok \<noteq> []"
    using app [of "\<lambda>x. True"] that by simp
  show ?thesis
    using assms(2) base tokInv_filter [OF base(1)] app app0
    by (auto simp: createToken_def preSave_def issue_def Let_def validateToken_def
                   storeInv_alt transactionalPushOn_def
             split: if_splits option.splits prod.splits sum.splits)
qed

lemma registerToken_inv:
  assumes "storeInv w" and "registerToken e w u tok p dev = (r, w')"
  shows "storeInv w'"
proof -
  obtain fr w1 where f: "findOneToken e w tok = (fr, w1)"
    by (metis surj_pair)
  have i1: "storeInv w1"
    using assms(1) storeInv_cong findOneToken_frame [OF f] by blast
  show ?thesis
  proof (cases fr)
    case (Inl err)
    then show ?thesis using assms(2) f i1 by (auto simp: registerToken_def)
  next
    case (Inr found)
    show ?thesis
    proof (cases found)
      case None
      then show ?thesis
        using assms(2) f Inr i1
        by (auto simp: registerToken_def split: prod.splits sum.splits dest: createToken_inv)
    next
      case (Some d0)
      then have d0: "d0 \<in> set (tokens w1)"
        using findOneToken_Some f Inr findOneToken_frame [OF f] by auto
      obtain sr w2 where s: "saveToken e w1 (d0\<lparr>userId := u, platform := p, deviceId := dev,
                                  lastActive := clock e (length (log w1))\<rparr>) = (sr, w2)"
        by (metis surj_pair)
      have "storeInv w2"
        using saveToken_inv [OF i1 d0 _ _ s] by simp
      moreover have "w' = w2"
        using assms(2) f Inr Some s by (auto simp: registerToken_def split: sum.splits)
      ultimately show ?thesis by simp
    qed
  qed
qed

lemma savePrefs_tokens: "savePrefs e w u po = (r, w') \<Longrightarrow> tokens w' = tokens w"
  by (auto simp: savePrefs_def issue_def split: option.splits if_splits)

lemma updatePreferences_tokens:
  assumes "updatePreferences e w uid q = (r, w')"
  shows "tokens w' = tokens w"
  using assms
  by (auto simp: updatePreferences_def
           split: if_splits jsval.splits prod.splits sum.splits
           dest!: findOrCreate_frame savePrefs_tokens)

lemma updatePreferences_inv:
  assumes "storeInv w" and "updatePreferences e w uid q = (r, w')"
  shows "storeInv w'"
  using assms updatePreferences_keeps [OF _ assms(2)] updatePreferences_tokens [OF assms(2)]
  by (simp add: storeInv_def tokensUnique_def)

lemma storeInv_empty: "storeInv emptyWorld"
  by (simp add: storeInv_def tokensUnique_def transactionalPushOn_def emptyWorld_def)

lemma reachable_storeInv: "reachable w \<Longrightarrow> storeInv w"
proof (induction rule: reachable.induct)
  case start
  show ?case by (rule storeInv_empty)
next
  case (check w e uid c ch b w')
  then show ?case using shouldSend_inv by blast
next
  case (getP w e uid rp w')
  then show ?case using getPreferences_inv by blast
next
  case (updateP w e uid q rp w')
  then show ?case using updatePreferences_inv by blast
next
  case (send w e uid n rs w')
  then show ?case using sendPushNotification_inv by blast
next
  case (batch w e uids n rb w')
  then show ?case using sendToMultipleUsers_inv by blast
next
  case (single w e sb rr w')
  then show ?case using sendNotification_inv by blast
next
  case (register w e u tok p dev rt w')
  then show ?case using registerToken_inv by blast
qed

subsection \<open>When no external call fails, the operations return\<close>

text \<open>The statements above that speak of a call that returns, or of a preference record that
  is obtained, are not empty: in an environment where no external call throws (and the gateway
  answers every token) a record is always obtained, a send always returns a result, and a
  registration with a non-empty user and token always returns the record.\<close>

lemma findOrCreate_quiet:
  assumes "\<forall>t c. \<not> raises e t c"
  shows "\<exists>d w'. findOrCreate e w u = (Inr (Some d), w')"
  using assms
  by (auto simp: findOrCreate_def findOnePrefs_simp createDefault_def issue_def
           split: option.splits)

lemma afterMulticast_quiet:
  assumes "\<forall>t c. \<not> raises e t c" and "length (responses response) = length toks"
  shows "\<exists>r w'. afterMulticast e w toks response = (Inr r, w')"
  using assms(1) unfolding afterMulticast_simp [OF assms(2)]
  by (auto simp: Let_def updateManyLastActive_def deleteManyTokens_def issue_def)

lemma sendPushNotification_quiet:
  assumes quiet: "\<forall>t c. \<not> raises e t c"
      and answers: "\<forall>t ts m. length (responses (multicast e t ts m)) = length ts"
  shows "\<exists>r w'. sendPushNotification e w uid n = (Inr r, w')"
proof -
  obtain b w1 where c: "shouldSendNotification e w uid (categoryOrDefault n) Push = (b, w1)"
    by (metis surj_pair)
  obtain toks w2 where f: "getUserFCMTokens e w1 uid = (Inr toks, w2)"
    using quiet by (auto simp: getUserFCMTokens_def issue_def)
  obtain w3 where m: "sendEachForMulticast e w2 (map token toks) (buildMessage n)
                        = (Inr (multicast e (length (log w2)) (map token toks) (buildMessage n)), w3)"
    using quiet by (auto simp: sendEachForMulticast_def issue_def)
  have "length (responses (multicast e (length (log w2)) (map token toks) (buildMessage n))) = length toks"
    using answers by simp
  then obtain r w' where "afterMulticast e w3 toks
      (multicast e (length (log w2)) (map token toks) (buildMessage n)) = (Inr r, w')"
    using afterMulticast_quiet [OF quiet] by blast
  then show ?thesis
    using c f m by (auto simp: sendPushNotification_def)
qed

lemma registerToken_quiet:
  assumes quiet: "\<forall>t c. \<not> raises e t c" and "u \<noteq> []" and "tok \<noteq> []"
  shows "\<exists>d w'. registerToken e w u tok p dev = (Inr d, w') \<and> token d = tok \<and> userId d = u \<and> deviceId d = dev"
  using assms
  by (auto simp: registerToken_def findOneToken_def createToken_def saveToken_def preSave_def
          validateToken_def issue_def Let_def find_None_iff
          split: option.splits dest: findOneToken_Some find_Some_iff [THEN iffD1])

end
